theory Spec2Isabelle
  imports Main
begin

section \<open>Text\<close>

text \<open>
  A Python \<open>str\<close> is a sequence of Unicode code points. The escape table of the
  encoder has keys beyond one byte (U+2028, U+2029), so text is modelled as a list of
  code points; \<open>cp\<close> reads an ASCII literal as such a list.
\<close>

type_synonym pystr = "nat list"

definition cp :: "string \<Rightarrow> pystr" where
  "cp s = map of_char s"

definition digit_char :: "nat \<Rightarrow> nat" where
  "digit_char d = (if d < 10 then 48 + d else 87 + d)"

function to_digits :: "nat \<Rightarrow> nat \<Rightarrow> pystr" where
  "to_digits b n =
     (if b < 2 \<or> n < b then [digit_char n]
      else to_digits b (n div b) @ [digit_char (n mod b)])"
  by pat_completeness auto
termination
  by (relation "measure snd") auto

declare to_digits.simps [simp del]

text \<open>\<open>int.__repr__\<close>: decimal digits, a leading minus sign for a negative value.\<close>

definition int_repr :: "int \<Rightarrow> pystr" where
  "int_repr i = (if i < 0 then cp ''-'' @ to_digits 10 (nat (- i)) else to_digits 10 (nat i))"

text \<open>The builtin \<open>hex\<close>: lower-case digits after \<open>0x\<close>, the sign in front.\<close>

definition py_hex :: "int \<Rightarrow> pystr" where
  "py_hex i = (if i < 0 then cp ''-0x'' @ to_digits 16 (nat (- i)) else cp ''0x'' @ to_digits 16 (nat i))"

text \<open>\<open>str(b)\<close> of a \<open>bool\<close>.\<close>

definition bool_str :: "bool \<Rightarrow> pystr" where
  "bool_str b = (if b then cp ''True'' else cp ''False'')"

text \<open>\<open>str.lower\<close>, on the ASCII letters.\<close>

definition lower :: "pystr \<Rightarrow> pystr" where
  "lower s = map (\<lambda>c. if 65 \<le> c \<and> c \<le> 90 then c + 32 else c) s"

text \<open>
  Slices \<open>s[:i]\<close> and \<open>s[i:]\<close>: a negative index counts from the end, and an index
  out of range is clamped.
\<close>

definition slice_to :: "'a list \<Rightarrow> int \<Rightarrow> 'a list" where
  "slice_to s i = (if i < 0 then take (nat (int (length s) + i)) s else take (nat i) s)"

definition slice_from :: "'a list \<Rightarrow> int \<Rightarrow> 'a list" where
  "slice_from s i = (if i < 0 then drop (nat (int (length s) + i)) s else drop (nat i) s)"

section \<open>Builtins of the interpreter\<close>

text \<open>
  The classes of host values that \<open>convert\<close> names without looking inside:
  \<open>date\<close>, \<open>time\<close>, \<open>datetime\<close>, \<open>re.Pattern\<close> and the members of an \<open>Enum\<close>.
\<close>

datatype opaque_kind = Date | Time | Datetime | Pattern | EnumMember

text \<open>
  The magnitude of a Python \<open>float\<close> is kept abstract (type \<open>'f\<close>); what the code
  asks of it is passed in as a record of the interpreter's operations, together with
  the hash functions that the interpreter fixes per process or per object.
\<close>

record 'f builtins =
  float_repr :: "'f \<Rightarrow> pystr"
  float_gt0 :: "'f \<Rightarrow> bool"
  float_eq :: "'f \<Rightarrow> 'f \<Rightarrow> bool"
  float_eq_int :: "'f \<Rightarrow> int \<Rightarrow> bool"
  float_isnan :: "'f \<Rightarrow> bool"
  float_of_str :: "pystr \<Rightarrow> 'f option"
  float_hash :: "'f \<Rightarrow> int"
  str_hash :: "pystr \<Rightarrow> int"
  none_hash :: int
  object_hash :: "nat \<Rightarrow> int"
  opaque_hash :: "opaque_kind \<Rightarrow> nat \<Rightarrow> int"
  tuple_hash :: "int list \<Rightarrow> int"

section \<open>The value model (backend/types.py)\<close>

datatype wsc =
    WhiteSpace pystr
  | Comment pystr
  | BlockStyleComment pystr
  | LineStyleComment pystr

datatype quote = SINGLE | DOUBLE

fun quote_value :: "quote \<Rightarrow> pystr" where
  "quote_value SINGLE = [39]"
| "quote_value DOUBLE = [34]"

text \<open>
  The attributes of the classes. Every attribute below except \<open>prefixed\<close> and
  \<open>json_container_head\<close> has a class-level default in types.py, so reading it never
  fails. \<open>prefixed\<close> is declared nowhere in types.py: it exists on an instance only
  if something assigned it (\<open>Some b\<close>), and is absent otherwise (\<open>None\<close>).
  \<open>json_container_head\<close> is read by the encoder with \<open>getattr(obj, ..., [])\<close>, so an
  absent attribute and an empty list are the same thing.
\<close>

record jtype =
  json_before :: "wsc list"
  json_after :: "wsc list"

record jcontainer = jtype +
  json_container_head :: "wsc list"
  json_container_tail :: "wsc list"
  json_container_trailing_comma :: bool

record jstring = jtype +
  quote :: quote
  linebreaks :: "int list"

record jnumber = jtype +
  origin :: "pystr option"
  prefixed :: "bool option"

text \<open>
  Host values and fidelity values. An entry of a sequence or of a mapping is a
  reference: the address of the object together with the object, so that the
  encoder's identity tests (\<open>is\<close>) can be modelled. \<open>PyOpaque\<close> is a value of one of
  the opaque classes that \<open>convert\<close> wraps, \<open>PyOther\<close> an instance of any class that
  the code does not name; the number says which value it is.
\<close>

datatype 'f pyobj =
    PyNone
  | PyBool bool
  | PyInt int
  | PyFloat 'f
  | PyStr pystr
  | PyList "(nat \<times> 'f pyobj) list"
  | PyTuple "(nat \<times> 'f pyobj) list"
  | PyDict "((nat \<times> 'f pyobj) \<times> (nat \<times> 'f pyobj)) list"
  | PyOpaque opaque_kind nat
  | PyOther nat
  | JObject jcontainer "((nat \<times> 'f pyobj) \<times> (nat \<times> 'f pyobj)) list"
  | Array jcontainer "(nat \<times> 'f pyobj) list"
  | Identifier jtype pystr
  | JString jstring pystr
  | Integer jnumber int
  | HexInteger jnumber int
  | Float jnumber 'f
  | JWrapper jtype "'f pyobj"
  | BoolWrapper jnumber bool

type_synonym 'f pyref = "nat \<times> 'f pyobj"

text \<open>\<open>a is b\<close> on two references.\<close>

definition py_is :: "'f pyref \<Rightarrow> 'f pyref \<Rightarrow> bool" where
  "py_is a b = (fst a = fst b)"

subsection \<open>The class hierarchy\<close>

datatype pyclass =
    C_object | C_NoneType | C_bool | C_int | C_float | C_str | C_list | C_tuple | C_dict
  | C_date | C_time | C_datetime | C_Pattern | C_Enum | C_other
  | C_JType | C_JContainer | C_JObject | C_Array | C_Identifier | C_JString
  | C_JNumber | C_Float | C_Integer | C_HexInteger | C_JWrapper | C_BoolWrapper

text \<open>The method resolution order of each class, from the class statements.\<close>

fun mro :: "pyclass \<Rightarrow> pyclass list" where
  "mro C_object = [C_object]"
| "mro C_NoneType = [C_NoneType, C_object]"
| "mro C_bool = [C_bool, C_int, C_object]"
| "mro C_int = [C_int, C_object]"
| "mro C_float = [C_float, C_object]"
| "mro C_str = [C_str, C_object]"
| "mro C_list = [C_list, C_object]"
| "mro C_tuple = [C_tuple, C_object]"
| "mro C_dict = [C_dict, C_object]"
| "mro C_date = [C_date, C_object]"
| "mro C_time = [C_time, C_object]"
| "mro C_datetime = [C_datetime, C_date, C_object]"
| "mro C_Pattern = [C_Pattern, C_object]"
| "mro C_Enum = [C_Enum, C_object]"
| "mro C_other = [C_other, C_object]"
| "mro C_JType = [C_JType, C_object]"
| "mro C_JContainer = [C_JContainer, C_JType, C_object]"
| "mro C_JObject = [C_JObject, C_JContainer, C_JType, C_dict, C_object]"
| "mro C_Array = [C_Array, C_JContainer, C_JType, C_list, C_object]"
| "mro C_Identifier = [C_Identifier, C_JType, C_str, C_object]"
| "mro C_JString = [C_JString, C_JType, C_str, C_object]"
| "mro C_JNumber = [C_JNumber, C_JType, C_object]"
| "mro C_Float = [C_Float, C_float, C_JNumber, C_JType, C_object]"
| "mro C_Integer = [C_Integer, C_int, C_JNumber, C_JType, C_object]"
| "mro C_HexInteger = [C_HexInteger, C_Integer, C_int, C_JNumber, C_JType, C_object]"
| "mro C_JWrapper = [C_JWrapper, C_JType, C_object]"
| "mro C_BoolWrapper =
     [C_BoolWrapper, C_Integer, C_int, C_JNumber, C_JWrapper, C_JType, C_object]"

fun opaque_class :: "opaque_kind \<Rightarrow> pyclass" where
  "opaque_class Date = C_date"
| "opaque_class Time = C_time"
| "opaque_class Datetime = C_datetime"
| "opaque_class Pattern = C_Pattern"
| "opaque_class EnumMember = C_Enum"

fun type_of :: "'f pyobj \<Rightarrow> pyclass" where
  "type_of PyNone = C_NoneType"
| "type_of (PyBool b) = C_bool"
| "type_of (PyInt i) = C_int"
| "type_of (PyFloat f) = C_float"
| "type_of (PyStr s) = C_str"
| "type_of (PyList xs) = C_list"
| "type_of (PyTuple xs) = C_tuple"
| "type_of (PyDict kvs) = C_dict"
| "type_of (PyOpaque k n) = opaque_class k"
| "type_of (PyOther n) = C_other"
| "type_of (JObject m kvs) = C_JObject"
| "type_of (Array m xs) = C_Array"
| "type_of (Identifier m s) = C_Identifier"
| "type_of (JString m s) = C_JString"
| "type_of (Integer m i) = C_Integer"
| "type_of (HexInteger m i) = C_HexInteger"
| "type_of (Float m f) = C_Float"
| "type_of (JWrapper m v) = C_JWrapper"
| "type_of (BoolWrapper m b) = C_BoolWrapper"

definition isinstance :: "'f pyobj \<Rightarrow> pyclass \<Rightarrow> bool" where
  "isinstance obj c = (c \<in> set (mro (type_of obj)))"

subsection \<open>Reading an object\<close>

text \<open>The items of a \<open>list\<close>, a \<open>tuple\<close> or an \<open>Array\<close>, in order.\<close>

fun list_items :: "'f pyobj \<Rightarrow> 'f pyref list" where
  "list_items (PyList xs) = xs"
| "list_items (PyTuple xs) = xs"
| "list_items (Array m xs) = xs"
| "list_items _ = []"

text \<open>The key/value pairs of a \<open>dict\<close> or a \<open>JObject\<close>, in insertion order.\<close>

fun dict_items :: "'f pyobj \<Rightarrow> ('f pyref \<times> 'f pyref) list" where
  "dict_items (PyDict kvs) = kvs"
| "dict_items (JObject m kvs) = kvs"
| "dict_items _ = []"

text \<open>The text of a \<open>str\<close>, a \<open>JString\<close> or an \<open>Identifier\<close>.\<close>

fun str_value :: "'f pyobj \<Rightarrow> pystr" where
  "str_value (PyStr s) = s"
| "str_value (JString m s) = s"
| "str_value (Identifier m s) = s"
| "str_value _ = []"

text \<open>The integer of an \<open>int\<close> or of an instance of one of its subclasses.\<close>

fun int_value :: "'f pyobj \<Rightarrow> int" where
  "int_value (PyInt i) = i"
| "int_value (PyBool b) = (if b then 1 else 0)"
| "int_value (Integer m i) = i"
| "int_value (HexInteger m i) = i"
| "int_value (BoolWrapper m b) = (if b then 1 else 0)"
| "int_value _ = 0"

fun float_value :: "'f pyobj \<Rightarrow> 'f option" where
  "float_value (PyFloat f) = Some f"
| "float_value (Float m f) = Some f"
| "float_value _ = None"

text \<open>\<open>getattr(obj, "json_before", [])\<close> and its siblings.\<close>

fun getattr_json_before :: "'f pyobj \<Rightarrow> wsc list" where
  "getattr_json_before (JObject m kvs) = json_before m"
| "getattr_json_before (Array m xs) = json_before m"
| "getattr_json_before (Identifier m s) = json_before m"
| "getattr_json_before (JString m s) = json_before m"
| "getattr_json_before (Integer m i) = json_before m"
| "getattr_json_before (HexInteger m i) = json_before m"
| "getattr_json_before (Float m f) = json_before m"
| "getattr_json_before (JWrapper m v) = json_before m"
| "getattr_json_before (BoolWrapper m b) = json_before m"
| "getattr_json_before _ = []"

fun getattr_json_after :: "'f pyobj \<Rightarrow> wsc list" where
  "getattr_json_after (JObject m kvs) = json_after m"
| "getattr_json_after (Array m xs) = json_after m"
| "getattr_json_after (Identifier m s) = json_after m"
| "getattr_json_after (JString m s) = json_after m"
| "getattr_json_after (Integer m i) = json_after m"
| "getattr_json_after (HexInteger m i) = json_after m"
| "getattr_json_after (Float m f) = json_after m"
| "getattr_json_after (JWrapper m v) = json_after m"
| "getattr_json_after (BoolWrapper m b) = json_after m"
| "getattr_json_after _ = []"

fun getattr_json_container_head :: "'f pyobj \<Rightarrow> wsc list" where
  "getattr_json_container_head (JObject m kvs) = json_container_head m"
| "getattr_json_container_head (Array m xs) = json_container_head m"
| "getattr_json_container_head _ = []"

fun getattr_json_container_tail :: "'f pyobj \<Rightarrow> wsc list" where
  "getattr_json_container_tail (JObject m kvs) = json_container_tail m"
| "getattr_json_container_tail (Array m xs) = json_container_tail m"
| "getattr_json_container_tail _ = []"

fun getattr_json_container_trailing_comma :: "'f pyobj \<Rightarrow> bool" where
  "getattr_json_container_trailing_comma (JObject m kvs) = json_container_trailing_comma m"
| "getattr_json_container_trailing_comma (Array m xs) = json_container_trailing_comma m"
| "getattr_json_container_trailing_comma _ = False"

text \<open>\<open>obj.prefixed\<close> on a number: \<open>None\<close> when the instance has no such attribute.\<close>

fun attr_prefixed :: "'f pyobj \<Rightarrow> bool option" where
  "attr_prefixed (Integer m i) = prefixed m"
| "attr_prefixed (HexInteger m i) = prefixed m"
| "attr_prefixed (Float m f) = prefixed m"
| "attr_prefixed (BoolWrapper m b) = prefixed m"
| "attr_prefixed _ = None"

subsection \<open>Class-level defaults and \<open>__post_init__\<close>\<close>

definition jtype_defaults :: jtype where
  "jtype_defaults = \<lparr>json_before = [], json_after = []\<rparr>"

definition jcontainer_defaults :: jcontainer where
  "jcontainer_defaults =
     \<lparr>json_before = [], json_after = [], json_container_head = [],
      json_container_tail = [], json_container_trailing_comma = False\<rparr>"

definition jstring_defaults :: jstring where
  "jstring_defaults = \<lparr>json_before = [], json_after = [], quote = DOUBLE, linebreaks = []\<rparr>"

definition jnumber_defaults :: jnumber where
  "jnumber_defaults = \<lparr>json_before = [], json_after = [], origin = None, prefixed = None\<rparr>"

text \<open>
  \<open>o.__post_init__()\<close> with no arguments, by the class of \<open>o\<close>: \<open>JType\<close> resets the
  leading and trailing attachment, \<open>JContainer\<close> also the tail and the trailing comma,
  \<open>JString\<close> also the quote and the line breaks, \<open>JNumber\<close> also the origin.
\<close>

fun post_init :: "'f pyobj \<Rightarrow> 'f pyobj" where
  "post_init (JObject m kvs) =
     JObject (m\<lparr>json_before := [], json_after := [], json_container_tail := [],
               json_container_trailing_comma := False\<rparr>) kvs"
| "post_init (Array m xs) =
     Array (m\<lparr>json_before := [], json_after := [], json_container_tail := [],
             json_container_trailing_comma := False\<rparr>) xs"
| "post_init (Identifier m s) = Identifier (m\<lparr>json_before := [], json_after := []\<rparr>) s"
| "post_init (JString m s) =
     JString (m\<lparr>json_before := [], json_after := [], quote := DOUBLE, linebreaks := []\<rparr>) s"
| "post_init (Integer m i) = Integer (m\<lparr>origin := None, json_before := [], json_after := []\<rparr>) i"
| "post_init (HexInteger m i) =
     HexInteger (m\<lparr>origin := None, json_before := [], json_after := []\<rparr>) i"
| "post_init (Float m f) = Float (m\<lparr>origin := None, json_before := [], json_after := []\<rparr>) f"
| "post_init (JWrapper m v) = JWrapper (m\<lparr>json_before := [], json_after := []\<rparr>) v"
| "post_init (BoolWrapper m b) =
     BoolWrapper (m\<lparr>origin := None, json_before := [], json_after := []\<rparr>) b"
| "post_init obj = obj"

subsection \<open>Errors\<close>

text \<open>
  The exceptions, each with what its message is built from:
  \<open>NotImplementedError(f"Unknown type: {type(obj)}")\<close>,
  \<open>NotImplementedError(f"Unknown literal: {obj.value}")\<close>, the \<open>AttributeError\<close> of
  reading an attribute that an instance of the class does not have,
  \<open>TypeError(f"{obj} can't be automatically converted to JSONType!")\<close>, the
  \<open>TypeError\<close> of hashing an instance of an unhashable class, and the \<open>ValueError\<close> of
  \<open>int(s)\<close> or \<open>float(s)\<close> on a text that is no literal.
\<close>

datatype 'f error =
    NotImplementedError_type pyclass
  | NotImplementedError_literal "'f pyobj"
  | AttributeError pyclass string
  | TypeError_convert "'f pyobj"
  | TypeError_unhashable pyclass
  | ValueError pystr

subsection \<open>\<open>__round_dump__\<close>\<close>

text \<open>
  The builtin \<open>int(s, base)\<close> for the bases 10 and 16, on ASCII text: blanks around
  the literal, a sign, for base 16 an optional prefix \<open>0x\<close> or \<open>0X\<close>, then digits
  with single underscores between them (one underscore may follow the prefix).
  \<open>None\<close> stands for the \<open>ValueError\<close>. Code points: 95 underscore, 43 plus,
  45 minus, 48 zero, 120 and 88 the letter x.
\<close>

definition is_space :: "nat \<Rightarrow> bool" where
  "is_space c = (c = 32 \<or> (9 \<le> c \<and> c \<le> 13))"

definition digit_value :: "nat \<Rightarrow> nat option" where
  "digit_value c =
     (if 48 \<le> c \<and> c \<le> 57 then Some (c - 48)
      else if 97 \<le> c \<and> c \<le> 122 then Some (c - 87)
      else if 65 \<le> c \<and> c \<le> 90 then Some (c - 55)
      else None)"

fun scan_digits :: "nat \<Rightarrow> pystr \<Rightarrow> nat option \<Rightarrow> bool \<Rightarrow> (nat \<times> pystr) option" where
  "scan_digits b [] acc prev_underscore =
     (if prev_underscore then None else map_option (\<lambda>n. (n, [])) acc)"
| "scan_digits b (c # cs) acc prev_underscore =
     (if c = 95 then (if prev_underscore then None else scan_digits b cs acc True)
      else if (case digit_value c of Some d \<Rightarrow> d < b | None \<Rightarrow> False) then
        scan_digits b cs
          (Some ((case acc of None \<Rightarrow> 0 | Some n \<Rightarrow> n * b) + the (digit_value c))) False
      else if prev_underscore then None
      else map_option (\<lambda>n. (n, c # cs)) acc)"

definition int_of_str :: "nat \<Rightarrow> pystr \<Rightarrow> int option" where
  "int_of_str b s =
     (let s1 = dropWhile is_space s;
          negative = (s1 \<noteq> [] \<and> hd s1 = 45);
          s2 = (if s1 \<noteq> [] \<and> (hd s1 = 43 \<or> hd s1 = 45) then tl s1 else s1);
          has_prefix = (b = 16 \<and> 2 \<le> length s2 \<and> s2 ! 0 = 48 \<and> (s2 ! 1 = 120 \<or> s2 ! 1 = 88));
          s3 = (if has_prefix then
                  (if 3 \<le> length s2 \<and> s2 ! 2 = 95 then drop 3 s2 else drop 2 s2)
                else s2)
      in if s3 \<noteq> [] \<and> hd s3 = 95 then None
         else (case scan_digits b s3 None False of
                 None \<Rightarrow> None
               | Some (n, rest) \<Rightarrow>
                   if dropWhile is_space rest = [] then
                     Some (if negative then - int n else int n)
                   else None))"

text \<open>\<open>s.replace(old, new)\<close>.\<close>

function replace :: "pystr \<Rightarrow> pystr \<Rightarrow> pystr \<Rightarrow> pystr" where
  "replace old new s =
     (if old = [] then new @ concat (map (\<lambda>c. c # new) s)
      else if s = [] then []
      else if take (length old) s = old then new @ replace old new (drop (length old) s)
      else hd s # replace old new (tl s))"
  by pat_completeness auto
termination
  by (relation "measure (\<lambda>(old, new, s). length s)") auto

declare replace.simps [simp del]

text \<open>
  \<open>obj.__round_dump__()\<close>, by the class of the number: the origin text when it is
  not empty and reads back as the value, a text made from the value otherwise.
  \<open>BoolWrapper\<close> gives the lower-case name of its boolean.
\<close>

fun round_dump :: "'f builtins \<Rightarrow> 'f pyobj \<Rightarrow> 'f error + pystr" where
  "round_dump B (Integer m i) =
     (case origin m of
        None \<Rightarrow> Inr (int_repr i)
      | Some s \<Rightarrow>
          if s = [] then Inr (int_repr i)
          else (case int_of_str 10 s of
                  None \<Rightarrow> Inl (ValueError s)
                | Some j \<Rightarrow> if j = i then Inr s else Inr (int_repr i)))"
| "round_dump B (HexInteger m i) =
     (case origin m of
        None \<Rightarrow> Inr (py_hex i)
      | Some s \<Rightarrow>
          if s = [] then Inr (py_hex i)
          else (case int_of_str 16 s of
                  None \<Rightarrow> Inl (ValueError s)
                | Some j \<Rightarrow> if j = i then Inr s else Inr (py_hex i)))"
| "round_dump B (Float m f) =
     (let canonical = replace (cp ''inf'') (cp ''Infinity'')
                        (replace (cp ''nan'') (cp ''NaN'') (float_repr B f))
      in case origin m of
           None \<Rightarrow> Inr canonical
         | Some s \<Rightarrow>
             if s = [] then Inr canonical
             else (case float_of_str B s of
                     None \<Rightarrow> Inl (ValueError s)
                   | Some constructed \<Rightarrow>
                       if (float_isnan B constructed \<and> float_isnan B f) \<or> float_eq B f constructed
                       then Inr s else Inr canonical))"
| "round_dump B (BoolWrapper m b) = Inr (lower (bool_str b))"
| "round_dump B obj = Inl (AttributeError (type_of obj) ''__round_dump__'')"

subsection \<open>\<open>convert\<close>\<close>

text \<open>
  The objects that exist when \<open>convert\<close> is called are the store: the address of an
  object is its index. \<open>convert\<close> is given a reference and returns one, with the
  store it leaves behind. A new object is built with the class-level defaults, put at
  the next free address, and then initialised there by \<open>__post_init__\<close>.
\<close>

type_synonym 'f store = "'f pyobj list"

definition construct :: "'f store \<Rightarrow> 'f pyobj \<Rightarrow> ('f error + 'f pyref) \<times> 'f store" where
  "construct st obj =
     (let address = length st;
          st1 = st @ [obj];
          st2 = st1[address := post_init (st1 ! address)]
      in (Inr (address, st2 ! address), st2))"

definition convert :: "'f store \<Rightarrow> 'f pyref \<Rightarrow> ('f error + 'f pyref) \<times> 'f store" where
  "convert st r =
     (let obj = snd r in
      if isinstance obj C_JType then (Inr r, st)
      else if isinstance obj C_list \<or> isinstance obj C_tuple then
        construct st (Array jcontainer_defaults (list_items obj))
      else if isinstance obj C_bool \<or> isinstance obj C_date \<or> isinstance obj C_time
              \<or> isinstance obj C_datetime \<or> isinstance obj C_Pattern
              \<or> isinstance obj C_Enum \<or> type_of obj = C_NoneType then
        construct st (JWrapper jtype_defaults obj)
      else if isinstance obj C_dict then
        construct st (JObject jcontainer_defaults (dict_items obj))
      else if isinstance obj C_str then
        construct st (JString jstring_defaults (str_value obj))
      else if isinstance obj C_int then
        construct st (Integer jnumber_defaults (int_value obj))
      else if isinstance obj C_float then
        (case float_value obj of
           Some f \<Rightarrow> construct st (Float jnumber_defaults f)
         | None \<Rightarrow> (Inl (TypeError_convert obj), st))
      else (Inl (TypeError_convert obj), st))"

section \<open>The encoder (backend/encode.py)\<close>

text \<open>
  The encoder writes into a sink and may raise. A run is modelled by the text it has
  written and the exception it ended with, if any: what was written before a failure
  stays in the sink.
\<close>

type_synonym 'f written = "pystr \<times> 'f error option"

definition fp_write :: "pystr \<Rightarrow> 'f written" where
  "fp_write s = (s, None)"

definition py_raise :: "'f error \<Rightarrow> 'f written" where
  "py_raise e = ([], Some e)"

text \<open>One statement after another: the second runs only if the first did not raise.\<close>

fun and_then :: "'f written \<Rightarrow> 'f written \<Rightarrow> 'f written" where
  "and_then (s, Some e) r = (s, Some e)"
| "and_then (s, None) (t, r) = (s @ t, r)"

fun in_order :: "'f written list \<Rightarrow> 'f written" where
  "in_order [] = fp_write []"
| "in_order (w # ws) = and_then w (in_order ws)"

text \<open>
  The escape table. Code points: 92 backslash, 10 \<open>\n\<close>, 13 \<open>\r\<close>, 8 \<open>\b\<close>, 12 \<open>\f\<close>,
  9 \<open>\t\<close>, 11 \<open>\v\<close>, 0 NUL, 8232 U+2028, 8233 U+2029. The values are raw strings, so
  the last two start with two backslashes.
\<close>

definition ESCAPES :: "(nat \<times> pystr) list" where
  "ESCAPES =
     [(92, [92, 92]),
      (10, [92, 110]),
      (13, [92, 114]),
      (8, [92, 98]),
      (12, [92, 102]),
      (9, [92, 116]),
      (11, [92, 118]),
      (0, [92, 48]),
      (8232, [92, 92, 117, 50, 48, 50, 56]),
      (8233, [92, 92, 117, 50, 48, 50, 57])]"

text \<open>
  Modelled from the spec: \<open>wsc.encode_wsc\<close> (backend/wsc.py is not among the sources).
  The spec: given a WSC atom, it returns its exact original text.
\<close>

fun encode_wsc :: "wsc \<Rightarrow> pystr" where
  "encode_wsc (WhiteSpace s) = s"
| "encode_wsc (Comment s) = s"
| "encode_wsc (BlockStyleComment s) = s"
| "encode_wsc (LineStyleComment s) = s"

text \<open>
  The decorator \<open>with_style\<close>: the leading attachment, the body, the trailing
  attachment. The attributes are read from the object that was passed in.
\<close>

definition with_style :: "'f pyobj \<Rightarrow> 'f written \<Rightarrow> 'f written" where
  "with_style obj body =
     in_order
       [fp_write (concat (map encode_wsc (getattr_json_before obj))),
        body,
        fp_write (concat (map encode_wsc (getattr_json_after obj)))]"

text \<open>\<open>string.translate(str.maketrans(table))\<close>, the table as an association list.\<close>

definition translate :: "(nat \<times> pystr) list \<Rightarrow> pystr \<Rightarrow> pystr" where
  "translate table s = concat (map (\<lambda>c. case map_of table c of Some r \<Rightarrow> r | None \<Rightarrow> [c]) s)"

fun attr_linebreaks :: "'f pyobj \<Rightarrow> int list" where
  "attr_linebreaks (JString m s) = linebreaks m"
| "attr_linebreaks _ = []"

fun attr_quote :: "'f pyobj \<Rightarrow> quote" where
  "attr_quote (JString m s) = quote m"
| "attr_quote _ = DOUBLE"

text \<open>
  \<open>escape_string(string, **escapes)\<close>. In \<open>{**escapes, **ESCAPES}\<close> an entry of
  \<open>ESCAPES\<close> wins over one of \<open>escapes\<close> with the same key. For a \<open>JString\<close>, a
  backslash and a newline are inserted before index \<open>line_break - 1\<close> of the escaped
  text, for each recorded line break in turn.
\<close>

definition escape_string :: "'f pyobj \<Rightarrow> (nat \<times> pystr) list \<Rightarrow> pystr" where
  "escape_string string escapes =
     (let out = translate (ESCAPES @ escapes) (str_value string) in
      if isinstance string C_JString then
        fold (\<lambda>line_break out.
                slice_to out (line_break - 1) @ [92, 10] @ slice_from out (line_break - 1))
             (attr_linebreaks string) out
      else out)"

text \<open>\<open>obj.value\<close>: only the wrappers have it.\<close>

fun attr_value :: "'f pyobj \<Rightarrow> 'f pyobj option" where
  "attr_value (JWrapper m v) = Some v"
| "attr_value (BoolWrapper m b) = Some (PyBool b)"
| "attr_value _ = None"

text \<open>
  The encoder imports the literal wrapper under the name \<open>JLiteral\<close>; types.py defines
  it as \<open>JWrapper\<close>, and the model reads the one as the other.
\<close>

definition encode_literal :: "'f pyobj \<Rightarrow> 'f written" where
  "encode_literal obj =
     with_style obj
       (case attr_value obj of
          None \<Rightarrow> py_raise (AttributeError (type_of obj) ''value'')
        | Some v \<Rightarrow>
            if v = PyBool True then fp_write (cp ''true'')
            else if v = PyBool False then fp_write (cp ''false'')
            else if v = PyNone then fp_write (cp ''null'')
            else py_raise (NotImplementedError_literal v))"

text \<open>
  \<open>str(obj)\<close> for an instance of \<open>JNumber\<close>: \<open>Integer.__str__\<close> is \<open>int.__repr__\<close>,
  \<open>HexInteger.__str__\<close> is \<open>hex\<close>, \<open>Float\<close> inherits the \<open>repr\<close> of \<open>float\<close>, and
  \<open>BoolWrapper.__str__\<close> is \<open>str(self.value)\<close>.
\<close>

fun str_of_number :: "'f builtins \<Rightarrow> 'f pyobj \<Rightarrow> pystr" where
  "str_of_number B (Integer m i) = int_repr i"
| "str_of_number B (HexInteger m i) = py_hex i"
| "str_of_number B (Float m f) = float_repr B f"
| "str_of_number B (BoolWrapper m b) = bool_str b"
| "str_of_number B _ = []"

text \<open>\<open>obj > 0\<close> for an instance of \<open>JNumber\<close>.\<close>

fun number_gt0 :: "'f builtins \<Rightarrow> 'f pyobj \<Rightarrow> bool" where
  "number_gt0 B (Float m f) = float_gt0 B f"
| "number_gt0 B obj = (0 < int_value obj)"

text \<open>
  \<open>encode_number\<close>: a host number is first wrapped, by \<open>Integer(obj)\<close> or \<open>Float(obj)\<close>,
  which sets no attribute. \<open>obj > 0 and obj.prefixed\<close> reads the attribute only when
  the value is positive.
\<close>

definition encode_number :: "'f builtins \<Rightarrow> 'f pyobj \<Rightarrow> 'f written" where
  "encode_number B obj0 =
     with_style obj0
       (let obj = (if \<not> isinstance obj0 C_JNumber then
                     (if isinstance obj0 C_int then Integer jnumber_defaults (int_value obj0)
                      else (case float_value obj0 of
                              Some f \<Rightarrow> Float jnumber_defaults f
                            | None \<Rightarrow> obj0))
                   else obj0);
            presentation = str_of_number B obj
        in if number_gt0 B obj then
             (case attr_prefixed obj of
                None \<Rightarrow> py_raise (AttributeError (type_of obj) ''prefixed'')
              | Some p \<Rightarrow> fp_write (if p then cp ''+'' @ presentation else presentation))
           else fp_write presentation)"

text \<open>\<open>encode_string\<close>: the escapes passed to \<open>escape_string\<close> are none.\<close>

definition encode_string :: "'f pyobj \<Rightarrow> 'f written" where
  "encode_string obj =
     with_style obj
       (if isinstance obj C_JString then
          fp_write (quote_value (attr_quote obj) @ escape_string obj [] @ quote_value (attr_quote obj))
        else if isinstance obj C_Identifier then fp_write (str_value obj)
        else fp_write ([34] @ escape_string obj [] @ [34]))"

text \<open>
  The three methods that call back into \<open>encode\<close> take it as the argument \<open>enc\<close>.
  Code points: 58 colon, 44 comma, 123 and 125 the braces, 91 and 93 the brackets.
\<close>

definition encode_pair ::
  "('f pyobj \<Rightarrow> 'f written) \<Rightarrow> 'f pyref \<Rightarrow> 'f pyref \<Rightarrow> 'f written" where
  "encode_pair enc key val = in_order [enc (snd key), fp_write [58], enc (snd val)]"

definition encode_dict :: "('f pyobj \<Rightarrow> 'f written) \<Rightarrow> 'f pyobj \<Rightarrow> 'f written" where
  "encode_dict enc obj =
     with_style obj
       (in_order
          [fp_write [123],
           fp_write (concat (map encode_wsc (getattr_json_container_head obj))),
           (if dict_items obj \<noteq> [] then
              (let last_k = fst (last (dict_items obj)) in
               in_order
                 (map (\<lambda>(k, v).
                         in_order
                           [encode_pair enc k v,
                            (if \<not> py_is k last_k \<or> getattr_json_container_trailing_comma obj
                             then fp_write [44] else fp_write [])])
                      (dict_items obj)))
            else fp_write []),
           fp_write (concat (map encode_wsc (getattr_json_container_tail obj))),
           fp_write [125]])"

definition encode_iterable :: "('f pyobj \<Rightarrow> 'f written) \<Rightarrow> 'f pyobj \<Rightarrow> 'f written" where
  "encode_iterable enc obj =
     with_style obj
       (in_order
          [fp_write [91],
           fp_write (concat (map encode_wsc (getattr_json_container_head obj))),
           (if list_items obj \<noteq> [] then
              (let last_v = last (list_items obj) in
               in_order
                 (map (\<lambda>v.
                         in_order
                           [enc (snd v),
                            (if \<not> py_is v last_v \<or> getattr_json_container_trailing_comma obj
                             then fp_write [44] else fp_write [])])
                      (list_items obj)))
            else fp_write []),
           fp_write (concat (map encode_wsc (getattr_json_container_tail obj))),
           fp_write [93]])"

lemma ref_size_list:
  "(a, v) \<in> set xs \<Longrightarrow> size v < Suc (size_list (size_prod (\<lambda>x. 0) size) xs)"
  by (induction xs) auto

lemma pair_size_list:
  "((a, k), (b, v)) \<in> set kvs \<Longrightarrow>
     size k < Suc (size_list (size_prod (size_prod (\<lambda>x. 0) size) (size_prod (\<lambda>x. 0) size)) kvs) \<and>
     size v < Suc (size_list (size_prod (size_prod (\<lambda>x. 0) size) (size_prod (\<lambda>x. 0) size)) kvs)"
  by (induction kvs) auto

lemma list_items_size: "(a, v) \<in> set (list_items obj) \<Longrightarrow> size v < size obj"
  by (cases obj) (auto dest: ref_size_list)

lemma dict_items_size:
  "((a, k), (b, v)) \<in> set (dict_items obj) \<Longrightarrow> size k < size obj \<and> size v < size obj"
  by (cases obj) (auto dest: pair_size_list)

lemma encode_iterable_cong [fundef_cong]:
  assumes "obj = obj'"
    and "\<And>a v. (a, v) \<in> set (list_items obj') \<Longrightarrow> enc v = enc' v"
  shows "encode_iterable enc obj = encode_iterable enc' obj'"
proof -
  have "map (\<lambda>v. in_order [enc (snd v), w v]) (list_items obj')
      = map (\<lambda>v. in_order [enc' (snd v), w v]) (list_items obj')" for w :: "'a pyref \<Rightarrow> 'a written"
  proof (intro map_cong refl)
    fix x assume x: "x \<in> set (list_items obj')"
    obtain a v where "x = (a, v)" by (cases x)
    with x assms(2) have "enc (snd x) = enc' (snd x)" by simp
    then show "in_order [enc (snd x), w x] = in_order [enc' (snd x), w x]" by simp
  qed
  then show ?thesis
    unfolding encode_iterable_def assms(1) Let_def by presburger
qed

lemma encode_dict_cong [fundef_cong]:
  assumes "obj = obj'"
    and "\<And>a k b v. ((a, k), (b, v)) \<in> set (dict_items obj') \<Longrightarrow> enc k = enc' k"
    and "\<And>a k b v. ((a, k), (b, v)) \<in> set (dict_items obj') \<Longrightarrow> enc v = enc' v"
  shows "encode_dict enc obj = encode_dict enc' obj'"
proof -
  have "map (\<lambda>(k, v). in_order [encode_pair enc k v, w k]) (dict_items obj')
      = map (\<lambda>(k, v). in_order [encode_pair enc' k v, w k]) (dict_items obj')"
    for w :: "'a pyref \<Rightarrow> 'a written"
  proof (intro map_cong refl)
    fix x assume x: "x \<in> set (dict_items obj')"
    obtain a k b v where "x = ((a, k), (b, v))" by (metis prod.collapse)
    with x assms(2,3) show "(case x of (k, v) \<Rightarrow> in_order [encode_pair enc k v, w k])
        = (case x of (k, v) \<Rightarrow> in_order [encode_pair enc' k v, w k])"
      by (simp add: encode_pair_def)
  qed
  then show ?thesis
    unfolding encode_dict_def assms(1) Let_def by presburger
qed

text \<open>
  \<open>Encoder.encode\<close>: the dispatch, in the order of the source. \<open>bool\<close> is a subclass
  of \<open>int\<close>, and \<open>BoolWrapper\<close> one of \<open>JNumber\<close>.
\<close>

function encode :: "'f builtins \<Rightarrow> 'f pyobj \<Rightarrow> 'f written" where
  "encode B obj =
     (if isinstance obj C_JNumber \<or> isinstance obj C_int \<or> isinstance obj C_float then
        encode_number B obj
      else if isinstance obj C_bool then encode_literal (JWrapper jtype_defaults obj)
      else if isinstance obj C_str then encode_string obj
      else if isinstance obj C_dict then encode_dict (encode B) obj
      else if isinstance obj C_list \<or> isinstance obj C_tuple then encode_iterable (encode B) obj
      else if isinstance obj C_JWrapper then encode_literal obj
      else py_raise (NotImplementedError_type (type_of obj)))"
  by pat_completeness auto
termination
  by (relation "measure (\<lambda>(B, obj). size obj)")
     (auto dest: list_items_size dict_items_size)

declare encode.simps [simp del]

text \<open>\<open>dumps\<close>: the text of the sink when \<open>encode\<close> returns, the exception otherwise.\<close>

definition dumps :: "'f builtins \<Rightarrow> 'f pyobj \<Rightarrow> 'f error + pystr" where
  "dumps B obj = (case encode B obj of (s, None) \<Rightarrow> Inr s | (s, Some e) \<Rightarrow> Inl e)"

section \<open>Equality and hashing of the values\<close>

text \<open>
  None of the classes of types.py but \<open>JWrapper\<close> defines \<open>__eq__\<close> or \<open>__hash__\<close>:
  the method of an instance is the first one found along the method resolution order
  of its class. \<open>defines_eq\<close> and \<open>defines_hash\<close> list the classes whose body (or
  whose C type) has the method (\<open>list\<close> and \<open>dict\<close> set \<open>__hash__\<close> to \<open>None\<close>).
\<close>

definition defines_eq :: "pyclass \<Rightarrow> bool" where
  "defines_eq c = (c \<in> set [C_object, C_int, C_float, C_str, C_list, C_tuple, C_dict,
                            C_date, C_time, C_datetime, C_Pattern, C_JWrapper])"

definition eq_owner :: "pyclass \<Rightarrow> pyclass" where
  "eq_owner c = (case find defines_eq (mro c) of Some d \<Rightarrow> d | None \<Rightarrow> C_object)"

definition defines_hash :: "pyclass \<Rightarrow> bool" where
  "defines_hash c = (c \<in> set [C_object, C_int, C_float, C_str, C_list, C_tuple, C_dict,
                              C_date, C_time, C_datetime, C_Pattern, C_Enum, C_JWrapper])"

definition hash_owner :: "pyclass \<Rightarrow> pyclass" where
  "hash_owner c = (case find defines_hash (mro c) of Some d \<Rightarrow> d | None \<Rightarrow> C_object)"

text \<open>\<open>hash\<close> of an \<open>int\<close> (64-bit CPython): the value modulo \<open>2^61 - 1\<close>, never -1.\<close>

definition int_hash :: "int \<Rightarrow> int" where
  "int_hash i =
     (let h = (if i < 0 then - ((- i) mod (2 ^ 61 - 1)) else i mod (2 ^ 61 - 1))
      in if h = - 1 then - 2 else h)"

text \<open>The results of a list of calls, or the first exception among them.\<close>

fun collect :: "('e + 'a) list \<Rightarrow> 'e + 'a list" where
  "collect [] = Inr []"
| "collect (Inl e # rs) = Inl e"
| "collect (Inr v # rs) = (case collect rs of Inl e \<Rightarrow> Inl e | Inr vs \<Rightarrow> Inr (v # vs))"

lemma hash_owner_JWrapper_size:
  "C_JWrapper = hash_owner (type_of x) \<Longrightarrow> attr_value x = Some v \<Longrightarrow> size v < size x"
  by (cases x) (auto simp: hash_owner_def defines_hash_def)

lemma eq_owner_JWrapper_size:
  "C_JWrapper = eq_owner (type_of x) \<Longrightarrow> attr_value x = Some v \<Longrightarrow> size v < size x"
  by (cases x) (auto simp: eq_owner_def defines_eq_def)

text \<open>
  The outcome of \<open>__hash__\<close>. The hash of a float that is NaN is made from the address
  of the float object, not from its magnitude (CPython 3.10 and later; types.py imports
  \<open>typing.Self\<close>, of 3.11): two NaN objects hash apart. An object of the model does not
  hold its own address, so that outcome is kept as \<open>Hash_by_identity\<close>, and \<open>at_address\<close>
  turns it into a number where the address is known, with the function that hashes an
  object of a plain class by its address. The value of a \<open>JWrapper\<close> is held without an
  address: for a wrapper of a NaN that is an item or a key, the address taken is that
  of the wrapper.
\<close>

datatype hashed = Hash int | Hash_by_identity

fun at_address :: "'f builtins \<Rightarrow> nat \<Rightarrow> 'f error + hashed \<Rightarrow> 'f error + int" where
  "at_address B a (Inl e) = Inl e"
| "at_address B a (Inr (Hash h)) = Inr h"
| "at_address B a (Inr Hash_by_identity) = Inr (object_hash B a)"

text \<open>
  \<open>hash(x)\<close>. \<open>JWrapper.__hash__\<close> is \<open>self.value.__hash__()\<close>; an instance of a subclass
  of \<open>list\<close> or \<open>dict\<close> is unhashable; a tuple hashes its items, each at its address.
\<close>

function py_hash :: "'f builtins \<Rightarrow> 'f pyobj \<Rightarrow> 'f error + hashed" where
  "py_hash B x =
     (let owner = hash_owner (type_of x) in
      if owner = C_int then Inr (Hash (int_hash (int_value x)))
      else if owner = C_float then
        (case float_value x of
           Some f \<Rightarrow> if float_isnan B f then Inr Hash_by_identity
                     else Inr (Hash (float_hash B f))
         | None \<Rightarrow> Inl (TypeError_unhashable (type_of x)))
      else if owner = C_str then Inr (Hash (str_hash B (str_value x)))
      else if owner = C_list \<or> owner = C_dict then Inl (TypeError_unhashable (type_of x))
      else if owner = C_tuple then
        (case collect (map (\<lambda>v. at_address B (fst v) (py_hash B (snd v))) (list_items x)) of
           Inl e \<Rightarrow> Inl e
         | Inr hs \<Rightarrow> Inr (Hash (tuple_hash B hs)))
      else if owner = C_JWrapper then
        (case attr_value x of
           Some v \<Rightarrow> py_hash B v
         | None \<Rightarrow> Inl (AttributeError (type_of x) ''value''))
      else
        (case x of
           PyNone \<Rightarrow> Inr (Hash (none_hash B))
         | PyOther n \<Rightarrow> Inr (Hash (object_hash B n))
         | PyOpaque k n \<Rightarrow> Inr (Hash (opaque_hash B k n))
         | _ \<Rightarrow> Inl (TypeError_unhashable (type_of x))))"
  by pat_completeness auto
termination
  apply (relation "measure (\<lambda>(B, x). size x)")
    apply (auto dest: list_items_size hash_owner_JWrapper_size)
  done

declare py_hash.simps [simp del]

text \<open>\<open>hash(r)\<close> of the object behind a reference.\<close>

definition hash_at :: "'f builtins \<Rightarrow> 'f pyref \<Rightarrow> 'f error + int" where
  "hash_at B r = at_address B (fst r) (py_hash B (snd r))"

lemma zip_items_size:
  "(v, w) \<in> set (zip (list_items x) (list_items y))
     \<Longrightarrow> size (snd v) < size x \<and> size (snd w) < size y"
  by (metis list_items_size prod.collapse set_zip_leftD set_zip_rightD)

lemma dict_entry_size:
  "(k, v) \<in> set (dict_items obj) \<Longrightarrow> size (snd k) < size obj \<and> size (snd v) < size obj"
  by (metis dict_items_size prod.collapse)

lemma find_SomeD: "find P xs = Some x \<Longrightarrow> x \<in> set xs"
  by (induction xs) (auto split: if_splits)

text \<open>
  \<open>x is y\<close> for the objects whose class takes \<open>__eq__\<close> from \<open>object\<close>: \<open>None\<close>, the
  members of an \<open>Enum\<close> and the instances of other classes; the number says which
  object it is.
\<close>

fun same_object :: "'f pyobj \<Rightarrow> 'f pyobj \<Rightarrow> bool" where
  "same_object PyNone PyNone = True"
| "same_object (PyOther n) (PyOther n') = (n = n')"
| "same_object (PyOpaque k n) (PyOpaque k' n') = (k = k' \<and> n = n')"
| "same_object _ _ = False"

text \<open>
  \<open>__eq__\<close> of \<open>date\<close>, \<open>time\<close>, \<open>datetime\<close> and \<open>re.Pattern\<close>: by value within the
  class, \<open>NotImplemented\<close> (here \<open>None\<close>) otherwise.
\<close>

fun opaque_eq :: "'f pyobj \<Rightarrow> 'f pyobj \<Rightarrow> bool option" where
  "opaque_eq (PyOpaque k n) (PyOpaque k' n') = (if k = k' then Some (n = n') else None)"
| "opaque_eq _ _ = None"


lemma attr_value_size_le: "size (case attr_value y of None \<Rightarrow> y | Some w \<Rightarrow> w) \<le> size y"
  by (cases y) auto

text \<open>
  \<open>dunder_eq B x y\<close> is \<open>type(x).__eq__(x, y)\<close>, with \<open>None\<close> for \<open>NotImplemented\<close>:
  the method of \<open>int\<close>, \<open>float\<close>, \<open>str\<close>, \<open>list\<close>, \<open>tuple\<close> or \<open>dict\<close> for the
  classes that inherit it, and for a \<open>JWrapper\<close> the source's
  \<open>self.value.__eq__(obj.value if isinstance(obj, JWrapper) else obj)\<close>. The items of
  two sequences, and the values of two mappings, are compared by identity first; a
  key is looked up by identity, or by hash and equality.
  \<open>py_eq B x y\<close> is \<open>x == y\<close>: the method of \<open>y\<close> first when the class of \<open>y\<close> is a
  proper subclass of the class of \<open>x\<close>, the method of \<open>x\<close> first otherwise, the
  other one when the first gives \<open>NotImplemented\<close>, and identity when both do, which
  is false there: an object compared with itself never gives \<open>NotImplemented\<close>
  (lemma \<open>dunder_eq_self\<close>).
\<close>

function dunder_eq :: "'f builtins \<Rightarrow> 'f pyobj \<Rightarrow> 'f pyobj \<Rightarrow> bool option"
  and py_eq :: "'f builtins \<Rightarrow> 'f pyobj \<Rightarrow> 'f pyobj \<Rightarrow> bool" where
  "dunder_eq B x y =
     (let owner = eq_owner (type_of x) in
      if owner = C_int then
        (if isinstance y C_int then Some (int_value x = int_value y) else None)
      else if owner = C_float then
        (case float_value x of
           None \<Rightarrow> None
         | Some f \<Rightarrow>
             if isinstance y C_float then
               (case float_value y of Some g \<Rightarrow> Some (float_eq B f g) | None \<Rightarrow> None)
             else if isinstance y C_int then Some (float_eq_int B f (int_value y))
             else None)
      else if owner = C_str then
        (if isinstance y C_str then Some (str_value x = str_value y) else None)
      else if owner = C_list \<or> owner = C_tuple then
        (if isinstance y owner then
           Some (length (list_items x) = length (list_items y)
                 \<and> list_all (\<lambda>(v, w). py_is v w \<or> py_eq B (snd v) (snd w))
                      (zip (list_items x) (list_items y)))
         else None)
      else if owner = C_dict then
        (if isinstance y C_dict then
           Some (length (dict_items x) = length (dict_items y)
                 \<and> list_all
                      (\<lambda>(k, v).
                         case find (\<lambda>(k', v'). py_is k' k
                                      \<or> (hash_at B k' = hash_at B k
                                          \<and> py_eq B (snd k') (snd k)))
                                (dict_items y) of
                           None \<Rightarrow> False
                         | Some (k', v') \<Rightarrow> py_is v v' \<or> py_eq B (snd v) (snd v'))
                      (dict_items x))
         else None)
      else if owner = C_JWrapper then
        (case attr_value x of
           None \<Rightarrow> None
         | Some v \<Rightarrow>
             dunder_eq B v
               (if isinstance y C_JWrapper then (case attr_value y of None \<Rightarrow> y | Some w \<Rightarrow> w)
                else y))
      else if owner = C_object then (if same_object x y then Some True else None)
      else opaque_eq x y)"
| "py_eq B x y =
     (if type_of x \<noteq> type_of y \<and> type_of x \<in> set (mro (type_of y)) then
        (case dunder_eq B y x of
           Some r \<Rightarrow> r
         | None \<Rightarrow> (case dunder_eq B x y of Some r \<Rightarrow> r | None \<Rightarrow> False))
      else
        (case dunder_eq B x y of
           Some r \<Rightarrow> r
         | None \<Rightarrow> (case dunder_eq B y x of Some r \<Rightarrow> r | None \<Rightarrow> False)))"
  by pat_completeness auto
termination
  apply (relation "measure (\<lambda>s. case s of Inl (B, x, y) \<Rightarrow> 2 * (size x + size y)
                                   | Inr (B, x, y) \<Rightarrow> 2 * (size x + size y) + 1)")
                      apply simp_all
  subgoal by (auto dest!: zip_items_size)
  subgoal by (auto dest!: dict_entry_size)
  subgoal by (auto dest!: find_SomeD dict_entry_size)
  subgoal for x y xa x2
    using eq_owner_JWrapper_size [of x x2] attr_value_size_le [of y] by auto
  done

declare dunder_eq.simps [simp del] py_eq.simps [simp del]


lemma ref_size_snd:
  "v \<in> set xs \<Longrightarrow> size (snd v) \<le> size_list (size_prod (\<lambda>x. 0) size) xs"
  by (induction xs) auto

lemma pair_size_fst:
  "kv \<in> set kvs \<Longrightarrow>
     size (snd (fst kv)) \<le> size_list (size_prod (size_prod (\<lambda>x. 0) size) (size_prod (\<lambda>x. 0) size)) kvs"
  by (induction kvs) auto

lemma pair_size_snd:
  "kv \<in> set kvs \<Longrightarrow>
     size (snd (snd kv)) \<le> size_list (size_prod (size_prod (\<lambda>x. 0) size) (size_prod (\<lambda>x. 0) size)) kvs"
  by (induction kvs) auto

text \<open>
  A value with all its formatting metadata put back to the defaults, at every depth:
  the leading and trailing attachment, head, tail and trailing comma of a container,
  quote and line breaks of a string, origin text and sign flag of a number. It is
  used to say that two values differ in formatting only.
\<close>

function (sequential) strip_formatting :: "'f pyobj \<Rightarrow> 'f pyobj" where
  "strip_formatting (PyList xs) = PyList (map (\<lambda>v. (fst v, strip_formatting (snd v))) xs)"
| "strip_formatting (PyTuple xs) = PyTuple (map (\<lambda>v. (fst v, strip_formatting (snd v))) xs)"
| "strip_formatting (PyDict kvs) =
     PyDict (map (\<lambda>kv. ((fst (fst kv), strip_formatting (snd (fst kv))),
                          (fst (snd kv), strip_formatting (snd (snd kv))))) kvs)"
| "strip_formatting (JObject m kvs) =
     JObject jcontainer_defaults
       (map (\<lambda>kv. ((fst (fst kv), strip_formatting (snd (fst kv))),
                    (fst (snd kv), strip_formatting (snd (snd kv))))) kvs)"
| "strip_formatting (Array m xs) =
     Array jcontainer_defaults (map (\<lambda>v. (fst v, strip_formatting (snd v))) xs)"
| "strip_formatting (Identifier m s) = Identifier jtype_defaults s"
| "strip_formatting (JString m s) = JString jstring_defaults s"
| "strip_formatting (Integer m i) = Integer jnumber_defaults i"
| "strip_formatting (HexInteger m i) = HexInteger jnumber_defaults i"
| "strip_formatting (Float m f) = Float jnumber_defaults f"
| "strip_formatting (JWrapper m v) = JWrapper jtype_defaults (strip_formatting v)"
| "strip_formatting (BoolWrapper m b) = BoolWrapper jnumber_defaults b"
| "strip_formatting x = x"
  by pat_completeness auto
termination
  by (relation "measure size")
     (auto simp: less_Suc_eq_le dest: ref_size_snd pair_size_fst pair_size_snd)

lemma type_of_strip [simp]: "type_of (strip_formatting x) = type_of x"
  by (cases x) auto

lemma isinstance_strip [simp]: "isinstance (strip_formatting x) c = isinstance x c"
  by (simp add: isinstance_def)

lemma int_value_strip [simp]: "int_value (strip_formatting x) = int_value x"
  by (cases x) auto

lemma str_value_strip [simp]: "str_value (strip_formatting x) = str_value x"
  by (cases x) auto

lemma float_value_strip [simp]: "float_value (strip_formatting x) = float_value x"
  by (cases x) auto

lemma list_items_strip:
  "list_items (strip_formatting x) = map (\<lambda>v. (fst v, strip_formatting (snd v))) (list_items x)"
  by (cases x) auto

lemma dict_items_strip:
  "dict_items (strip_formatting x)
     = map (\<lambda>kv. ((fst (fst kv), strip_formatting (snd (fst kv))),
                     (fst (snd kv), strip_formatting (snd (snd kv))))) (dict_items x)"
  by (cases x) auto

lemma attr_value_strip:
  "attr_value (strip_formatting x) = map_option strip_formatting (attr_value x)"
  by (cases x) auto

lemma same_object_strip [simp]:
  "same_object (strip_formatting x) (strip_formatting y) = same_object x y"
  by (cases x; cases y) auto

lemma opaque_eq_strip [simp]:
  "opaque_eq (strip_formatting x) (strip_formatting y) = opaque_eq x y"
  by (cases x; cases y) auto

lemma eq_owner_table [simp]:
  "eq_owner C_object = C_object"
  "eq_owner C_NoneType = C_object"
  "eq_owner C_bool = C_int"
  "eq_owner C_int = C_int"
  "eq_owner C_float = C_float"
  "eq_owner C_str = C_str"
  "eq_owner C_list = C_list"
  "eq_owner C_tuple = C_tuple"
  "eq_owner C_dict = C_dict"
  "eq_owner C_date = C_date"
  "eq_owner C_time = C_time"
  "eq_owner C_datetime = C_datetime"
  "eq_owner C_Pattern = C_Pattern"
  "eq_owner C_Enum = C_object"
  "eq_owner C_other = C_object"
  "eq_owner C_JType = C_object"
  "eq_owner C_JContainer = C_object"
  "eq_owner C_JObject = C_dict"
  "eq_owner C_Array = C_list"
  "eq_owner C_Identifier = C_str"
  "eq_owner C_JString = C_str"
  "eq_owner C_JNumber = C_object"
  "eq_owner C_Float = C_float"
  "eq_owner C_Integer = C_int"
  "eq_owner C_HexInteger = C_int"
  "eq_owner C_JWrapper = C_JWrapper"
  "eq_owner C_BoolWrapper = C_int"
  by (simp_all add: eq_owner_def defines_eq_def)

lemma hash_owner_table [simp]:
  "hash_owner C_object = C_object"
  "hash_owner C_NoneType = C_object"
  "hash_owner C_bool = C_int"
  "hash_owner C_int = C_int"
  "hash_owner C_float = C_float"
  "hash_owner C_str = C_str"
  "hash_owner C_list = C_list"
  "hash_owner C_tuple = C_tuple"
  "hash_owner C_dict = C_dict"
  "hash_owner C_date = C_date"
  "hash_owner C_time = C_time"
  "hash_owner C_datetime = C_datetime"
  "hash_owner C_Pattern = C_Pattern"
  "hash_owner C_Enum = C_Enum"
  "hash_owner C_other = C_object"
  "hash_owner C_JType = C_object"
  "hash_owner C_JContainer = C_object"
  "hash_owner C_JObject = C_dict"
  "hash_owner C_Array = C_list"
  "hash_owner C_Identifier = C_str"
  "hash_owner C_JString = C_str"
  "hash_owner C_JNumber = C_object"
  "hash_owner C_Float = C_float"
  "hash_owner C_Integer = C_int"
  "hash_owner C_HexInteger = C_int"
  "hash_owner C_JWrapper = C_JWrapper"
  "hash_owner C_BoolWrapper = C_int"
  by (simp_all add: hash_owner_def defines_hash_def)

lemma hash_owner_opaque: "hash_owner (opaque_class k) = opaque_class k"
  by (cases k) simp_all

lemma eq_owner_opaque:
  "eq_owner (opaque_class k) = (if k = EnumMember then C_object else opaque_class k)"
  by (cases k) simp_all

lemma opaque_class_not_builtin:
  "opaque_class k \<notin> {C_object, C_int, C_float, C_str, C_list, C_tuple, C_dict, C_JWrapper}"
  by (cases k) simp_all

lemma hash_owner_JWrapperD: "hash_owner (type_of x) = C_JWrapper \<Longrightarrow> \<exists>m v. x = JWrapper m v"
  using opaque_class_not_builtin
  by (cases x) (auto simp: hash_owner_opaque)

lemma eq_owner_JWrapperD: "eq_owner (type_of x) = C_JWrapper \<Longrightarrow> \<exists>m v. x = JWrapper m v"
  using opaque_class_not_builtin
  by (cases x) (auto simp: eq_owner_opaque split: if_splits)

lemma collect_cong:
  "(\<And>v. v \<in> set xs \<Longrightarrow> f v = g v) \<Longrightarrow> collect (map f xs) = collect (map g xs)"
  by (metis map_cong)

lemma py_hash_cases:
  "py_hash B PyNone = Inr (Hash (none_hash B))"
  "py_hash B (PyBool b) = Inr (Hash (int_hash (if b then 1 else 0)))"
  "py_hash B (PyInt i) = Inr (Hash (int_hash i))"
  "py_hash B (PyFloat f) = (if float_isnan B f then Inr Hash_by_identity
                            else Inr (Hash (float_hash B f)))"
  "py_hash B (PyStr s) = Inr (Hash (str_hash B s))"
  "py_hash B (PyList xs) = Inl (TypeError_unhashable C_list)"
  "py_hash B (PyTuple xs) =
     (case collect (map (\<lambda>v. at_address B (fst v) (py_hash B (snd v))) xs) of
        Inl e \<Rightarrow> Inl e | Inr hs \<Rightarrow> Inr (Hash (tuple_hash B hs)))"
  "py_hash B (PyDict kvs) = Inl (TypeError_unhashable C_dict)"
  "py_hash B (PyOpaque k n) = Inr (Hash (opaque_hash B k n))"
  "py_hash B (PyOther n) = Inr (Hash (object_hash B n))"
  "py_hash B (JObject mc kvs) = Inl (TypeError_unhashable C_JObject)"
  "py_hash B (Array mc xs) = Inl (TypeError_unhashable C_Array)"
  "py_hash B (Identifier mt s) = Inr (Hash (str_hash B s))"
  "py_hash B (JString ms s) = Inr (Hash (str_hash B s))"
  "py_hash B (Integer mn i) = Inr (Hash (int_hash i))"
  "py_hash B (HexInteger mn i) = Inr (Hash (int_hash i))"
  "py_hash B (Float mn f) = (if float_isnan B f then Inr Hash_by_identity
                             else Inr (Hash (float_hash B f)))"
  "py_hash B (JWrapper mt v) = py_hash B v"
  "py_hash B (BoolWrapper mn b) = Inr (Hash (int_hash (if b then 1 else 0)))"
  using opaque_class_not_builtin [of k]
  by (subst py_hash.simps, simp add: hash_owner_opaque)+

lemma py_hash_strip: "py_hash B (strip_formatting x) = py_hash B x"
proof (induction B x rule: py_hash.induct)
  case (1 B x)
  show ?case
  proof (cases x)
    case (PyTuple xs)
    have h: "map (\<lambda>v. at_address B (fst v) (py_hash B (snd v)))
               (map (\<lambda>v. (fst v, strip_formatting (snd v))) xs)
        = map (\<lambda>v. at_address B (fst v) (py_hash B (snd v))) xs"
      using 1(1) [of C_tuple] PyTuple by (auto simp: comp_def)
    show ?thesis
      unfolding PyTuple by (simp only: strip_formatting.simps py_hash_cases h)
  next
    case (JWrapper m v)
    then show ?thesis
      using 1(2) [of C_JWrapper v] by (simp add: py_hash_cases)
  qed (simp_all add: py_hash_cases)
qed

lemma hash_at_strip [simp]:
  "hash_at B (fst v, strip_formatting (snd v)) = hash_at B v"
  by (simp add: hash_at_def py_hash_strip)

lemma eq_owner_range:
  "eq_owner c \<in> {C_int, C_float, C_str, C_list, C_tuple, C_dict, C_JWrapper, C_object,
                 C_date, C_time, C_datetime, C_Pattern}"
  by (cases c) simp_all

lemma dunder_eq_int:
  "eq_owner (type_of x) = C_int \<Longrightarrow>
   dunder_eq B x y = (if isinstance y C_int then Some (int_value x = int_value y) else None)"
  by (subst dunder_eq.simps) simp

lemma dunder_eq_float:
  "eq_owner (type_of x) = C_float \<Longrightarrow>
   dunder_eq B x y =
     (case float_value x of
        None \<Rightarrow> None
      | Some f \<Rightarrow>
          if isinstance y C_float then
            (case float_value y of Some g \<Rightarrow> Some (float_eq B f g) | None \<Rightarrow> None)
          else if isinstance y C_int then Some (float_eq_int B f (int_value y))
          else None)"
  by (subst dunder_eq.simps) simp

lemma dunder_eq_str:
  "eq_owner (type_of x) = C_str \<Longrightarrow>
   dunder_eq B x y = (if isinstance y C_str then Some (str_value x = str_value y) else None)"
  by (subst dunder_eq.simps) simp

lemma dunder_eq_seq:
  "eq_owner (type_of x) = C_list \<or> eq_owner (type_of x) = C_tuple \<Longrightarrow>
   dunder_eq B x y =
     (if isinstance y (eq_owner (type_of x)) then
        Some (length (list_items x) = length (list_items y)
              \<and> list_all (\<lambda>(v, w). py_is v w \<or> py_eq B (snd v) (snd w))
                   (zip (list_items x) (list_items y)))
      else None)"
  by (subst dunder_eq.simps) auto

lemma dunder_eq_dict:
  "eq_owner (type_of x) = C_dict \<Longrightarrow>
   dunder_eq B x y =
     (if isinstance y C_dict then
        Some (length (dict_items x) = length (dict_items y)
              \<and> list_all
                   (\<lambda>(k, v).
                      case find (\<lambda>(k', v'). py_is k' k
                                   \<or> (hash_at B k' = hash_at B k
                                       \<and> py_eq B (snd k') (snd k)))
                             (dict_items y) of
                        None \<Rightarrow> False
                      | Some (k', v') \<Rightarrow> py_is v v' \<or> py_eq B (snd v) (snd v'))
                   (dict_items x))
      else None)"
  by (subst dunder_eq.simps) simp

lemma dunder_eq_wrapper:
  "dunder_eq B (JWrapper m v) y =
     dunder_eq B v
       (if isinstance y C_JWrapper then (case attr_value y of None \<Rightarrow> y | Some w \<Rightarrow> w) else y)"
  by (subst dunder_eq.simps) simp

lemma dunder_eq_object:
  "eq_owner (type_of x) = C_object \<Longrightarrow>
   dunder_eq B x y = (if same_object x y then Some True else None)"
  by (subst dunder_eq.simps) simp

lemma dunder_eq_opaque:
  "eq_owner (type_of x) \<in> {C_date, C_time, C_datetime, C_Pattern} \<Longrightarrow>
   dunder_eq B x y = opaque_eq x y"
  by (subst dunder_eq.simps) auto

lemma list_all_zip_map:
  assumes "\<And>v w. (v, w) \<in> set (zip xs ys) \<Longrightarrow> P (f v) (f w) = R v w"
  shows "list_all (\<lambda>(v, w). P v w) (zip (map f xs) (map f ys))
       = list_all (\<lambda>(v, w). R v w) (zip xs ys)"
  using assms
proof (induction xs arbitrary: ys)
  case Nil
  then show ?case by simp
next
  case (Cons x xs)
  then show ?case by (cases ys) auto
qed

lemma find_map_key:
  assumes "\<And>kv'. kv' \<in> set ys \<Longrightarrow> M' (g kv') = M kv'"
  shows "find M' (map g ys) = map_option g (find M ys)"
  using assms by (induction ys) auto

lemma dict_all_map:
  assumes keys: "\<And>kv kv'. kv \<in> set xs \<Longrightarrow> kv' \<in> set ys \<Longrightarrow>
                   M' (fst (g kv')) (fst (g kv)) = M (fst kv') (fst kv)"
    and vals: "\<And>kv kv'. kv \<in> set xs \<Longrightarrow> kv' \<in> set ys \<Longrightarrow>
                   V' (snd (g kv)) (snd (g kv')) = V (snd kv) (snd kv')"
  shows "list_all (\<lambda>(k, v). case find (\<lambda>(k', v'). M' k' k) (map g ys) of
                               None \<Rightarrow> False | Some (k', v') \<Rightarrow> V' v v') (map g xs)
       = list_all (\<lambda>(k, v). case find (\<lambda>(k', v'). M k' k) ys of
                               None \<Rightarrow> False | Some (k', v') \<Rightarrow> V v v') xs"
proof -
  have one: "(case find (\<lambda>(k', v'). M' k' (fst (g kv))) (map g ys) of
                None \<Rightarrow> False | Some (k', v') \<Rightarrow> V' (snd (g kv)) v')
           = (case find (\<lambda>(k', v'). M k' (fst kv)) ys of
                None \<Rightarrow> False | Some (k', v') \<Rightarrow> V (snd kv) v')"
    if kv: "kv \<in> set xs" for kv
  proof -
    have f: "find (\<lambda>(k', v'). M' k' (fst (g kv))) (map g ys)
           = map_option g (find (\<lambda>(k', v'). M k' (fst kv)) ys)"
      by (rule find_map_key) (simp add: case_prod_beta keys [OF kv])
    show ?thesis
    proof (cases "find (\<lambda>(k', v'). M k' (fst kv)) ys")
      case None
      then show ?thesis by (simp add: f)
    next
      case (Some kv')
      then have "kv' \<in> set ys" by (rule find_SomeD)
      then show ?thesis
        using Some vals [OF kv, of kv'] by (simp add: f case_prod_beta)
    qed
  qed
  show ?thesis
    unfolding list_all_iff using one by (simp add: case_prod_beta)
qed

lemma py_is_strip [simp]:
  "py_is (fst v, strip_formatting (snd v)) (fst w, strip_formatting (snd w)) = py_is v w"
  by (simp add: py_is_def)

lemma py_eq_from_dunder:
  assumes "dunder_eq B x' y' = dunder_eq B x y" and "dunder_eq B y' x' = dunder_eq B y x"
    and "type_of x' = type_of x" and "type_of y' = type_of y"
  shows "py_eq B x' y' = py_eq B x y"
  by (simp only: py_eq.simps assms)

lemma unwrap_strip:
  "(if isinstance (strip_formatting y) C_JWrapper
    then (case attr_value (strip_formatting y) of None \<Rightarrow> strip_formatting y | Some w \<Rightarrow> w)
    else strip_formatting y)
   = strip_formatting (if isinstance y C_JWrapper
                       then (case attr_value y of None \<Rightarrow> y | Some w \<Rightarrow> w) else y)"
  by (cases "attr_value y") (simp_all add: attr_value_strip)

lemma dunder_eq_strip:
  "dunder_eq B (strip_formatting x) (strip_formatting y) = dunder_eq B x y"
proof (induction "size x + size y" arbitrary: x y rule: less_induct)
  case less
  have D: "dunder_eq B (strip_formatting a) (strip_formatting b) = dunder_eq B a b"
    if "size a + size b < size x + size y" for a b
    using less that by blast
  have Q: "py_eq B (strip_formatting a) (strip_formatting b) = py_eq B a b"
    if "size a + size b < size x + size y" for a b
    by (rule py_eq_from_dunder) (use that D [of a b] D [of b a] in \<open>simp_all add: add.commute\<close>)
  consider (int) "eq_owner (type_of x) = C_int" | (float) "eq_owner (type_of x) = C_float"
    | (str) "eq_owner (type_of x) = C_str"
    | (seq) "eq_owner (type_of x) = C_list \<or> eq_owner (type_of x) = C_tuple"
    | (dict) "eq_owner (type_of x) = C_dict" | (wrapper) "eq_owner (type_of x) = C_JWrapper"
    | (object) "eq_owner (type_of x) = C_object"
    | (opaque) "eq_owner (type_of x) \<in> {C_date, C_time, C_datetime, C_Pattern}"
    using eq_owner_range [of "type_of x"] by auto
  then show ?case
  proof cases
    case int
    then show ?thesis by (simp add: dunder_eq_int)
  next
    case float
    then show ?thesis by (auto simp: dunder_eq_float split: option.splits)
  next
    case str
    then show ?thesis by (simp add: dunder_eq_str)
  next
    case seq
    have "list_all (\<lambda>(v, w). py_is v w \<or> py_eq B (snd v) (snd w))
            (zip (map (\<lambda>v. (fst v, strip_formatting (snd v))) (list_items x))
                 (map (\<lambda>v. (fst v, strip_formatting (snd v))) (list_items y)))
        = list_all (\<lambda>(v, w). py_is v w \<or> py_eq B (snd v) (snd w))
            (zip (list_items x) (list_items y))"
    proof (rule list_all_zip_map)
      fix v w assume "(v, w) \<in> set (zip (list_items x) (list_items y))"
      then have "size (snd v) + size (snd w) < size x + size y"
        using zip_items_size by fastforce
      then show "(py_is (fst v, strip_formatting (snd v)) (fst w, strip_formatting (snd w))
                  \<or> py_eq B (snd (fst v, strip_formatting (snd v)))
                             (snd (fst w, strip_formatting (snd w))))
               = (py_is v w \<or> py_eq B (snd v) (snd w))"
        by (simp add: Q)
    qed
    then show ?thesis
      using seq by (simp add: dunder_eq_seq list_items_strip)
  next
    case dict
    let ?g = "\<lambda>kv. ((fst (fst kv), strip_formatting (snd (fst kv))),
                     (fst (snd kv), strip_formatting (snd (snd kv))))"
    let ?M = "\<lambda>k' k. py_is k' k \<or> (hash_at B k' = hash_at B k \<and> py_eq B (snd k') (snd k))"
    let ?V = "\<lambda>v v'. py_is v v' \<or> py_eq B (snd v) (snd v')"
    have "list_all (\<lambda>(k, v). case find (\<lambda>(k', v'). ?M k' k) (map ?g (dict_items y)) of
                                None \<Rightarrow> False | Some (k', v') \<Rightarrow> ?V v v')
            (map ?g (dict_items x))
        = list_all (\<lambda>(k, v). case find (\<lambda>(k', v'). ?M k' k) (dict_items y) of
                                None \<Rightarrow> False | Some (k', v') \<Rightarrow> ?V v v')
            (dict_items x)"
    proof (rule dict_all_map)
      fix kv kv' assume kv: "kv \<in> set (dict_items x)" and kv': "kv' \<in> set (dict_items y)"
      have sx: "size (snd (fst kv)) < size x" "size (snd (snd kv)) < size x"
        using kv dict_entry_size [of "fst kv" "snd kv" x] by simp_all
      have sy: "size (snd (fst kv')) < size y" "size (snd (snd kv')) < size y"
        using kv' dict_entry_size [of "fst kv'" "snd kv'" y] by simp_all
      show "?M (fst (?g kv')) (fst (?g kv)) = ?M (fst kv') (fst kv)"
        using sx sy by (simp add: Q)
      show "?V (snd (?g kv)) (snd (?g kv')) = ?V (snd kv) (snd kv')"
        using sx sy by (simp add: Q)
    qed
    then show ?thesis
      using dict by (simp add: dunder_eq_dict dict_items_strip)
  next
    case wrapper
    then obtain m v where x: "x = JWrapper m v"
      using eq_owner_JWrapperD by blast
    let ?y = "if isinstance y C_JWrapper then (case attr_value y of None \<Rightarrow> y | Some w \<Rightarrow> w) else y"
    have "size ?y \<le> size y"
      using attr_value_size_le [of y] by simp
    then have "dunder_eq B (strip_formatting v) (strip_formatting ?y) = dunder_eq B v ?y"
      using x by (intro D) simp
    then show ?thesis
      unfolding x strip_formatting.simps dunder_eq_wrapper unwrap_strip .
  next
    case object
    then show ?thesis by (simp add: dunder_eq_object)
  next
    case opaque
    then show ?thesis by (simp add: dunder_eq_opaque)
  qed
qed

lemma py_eq_strip: "py_eq B (strip_formatting x) (strip_formatting y) = py_eq B x y"
  by (rule py_eq_from_dunder) (simp_all add: dunder_eq_strip)

lemma dunder_eq_self: "dunder_eq B x x \<noteq> None"
proof (induction x)
  case (JWrapper m v)
  then show ?case by (simp add: dunder_eq_wrapper isinstance_def)
next
  case (PyOpaque k n)
  then show ?case
    by (cases k) (simp_all add: dunder_eq_opaque dunder_eq_object)
qed (simp_all add: dunder_eq_int dunder_eq_float dunder_eq_str dunder_eq_seq dunder_eq_dict
       dunder_eq_object isinstance_def)

lemma dunder_eq_bool_int:
  "dunder_eq B v (PyBool b) = dunder_eq B v (PyInt (if b then 1 else 0))"
proof (induction v)
  case (JWrapper m v)
  then show ?case by (simp add: dunder_eq_wrapper isinstance_def)
next
  case (PyOpaque k n)
  then show ?case
    by (cases k) (simp_all add: dunder_eq_opaque dunder_eq_object)
qed (simp_all add: dunder_eq_int dunder_eq_float dunder_eq_str dunder_eq_seq dunder_eq_dict
       dunder_eq_object isinstance_def)

lemma dunder_eq_boolwrapper_int:
  "dunder_eq B y (BoolWrapper m b) = dunder_eq B y (PyInt (if b then 1 else 0))"
proof (cases y)
  case (JWrapper m' v)
  then show ?thesis
    using dunder_eq_bool_int [of B v b] by (simp add: dunder_eq_wrapper isinstance_def)
next
  case (PyOpaque k n)
  then show ?thesis
    by (cases k) (simp_all add: dunder_eq_opaque dunder_eq_object)
qed (simp_all add: dunder_eq_int dunder_eq_float dunder_eq_str dunder_eq_seq dunder_eq_dict
       dunder_eq_object isinstance_def)

subsection \<open>Values with the same content\<close>

text \<open>
  The content of a value: the value with its formatting metadata put back to the
  defaults and with every address inside it set to 0, at every depth. Two values have
  the same content when they differ only in formatting and in the identity of the
  objects they are built from, as two documents loaded one after the other do.
\<close>

function (sequential) content :: "'f pyobj \<Rightarrow> 'f pyobj" where
  "content (PyList xs) = PyList (map (\<lambda>v. (0, content (snd v))) xs)"
| "content (PyTuple xs) = PyTuple (map (\<lambda>v. (0, content (snd v))) xs)"
| "content (PyDict kvs) =
     PyDict (map (\<lambda>kv. ((0, content (snd (fst kv))), (0, content (snd (snd kv))))) kvs)"
| "content (JObject m kvs) =
     JObject jcontainer_defaults
       (map (\<lambda>kv. ((0, content (snd (fst kv))), (0, content (snd (snd kv))))) kvs)"
| "content (Array m xs) = Array jcontainer_defaults (map (\<lambda>v. (0, content (snd v))) xs)"
| "content (Identifier m s) = Identifier jtype_defaults s"
| "content (JString m s) = JString jstring_defaults s"
| "content (Integer m i) = Integer jnumber_defaults i"
| "content (HexInteger m i) = HexInteger jnumber_defaults i"
| "content (Float m f) = Float jnumber_defaults f"
| "content (JWrapper m v) = JWrapper jtype_defaults (content v)"
| "content (BoolWrapper m b) = BoolWrapper jnumber_defaults b"
| "content x = x"
  by pat_completeness auto
termination
  by (relation "measure size")
     (auto simp: less_Suc_eq_le dest: ref_size_snd pair_size_fst pair_size_snd)

text \<open>
  No float inside the value is NaN: each is equal to itself, and \<open>isnan\<close> is false
  of it.
\<close>

function (sequential) nan_free :: "'f builtins \<Rightarrow> 'f pyobj \<Rightarrow> bool" where
  "nan_free B (PyFloat f) = (float_eq B f f \<and> \<not> float_isnan B f)"
| "nan_free B (Float m f) = (float_eq B f f \<and> \<not> float_isnan B f)"
| "nan_free B (PyList xs) = list_all (\<lambda>v. nan_free B (snd v)) xs"
| "nan_free B (PyTuple xs) = list_all (\<lambda>v. nan_free B (snd v)) xs"
| "nan_free B (Array m xs) = list_all (\<lambda>v. nan_free B (snd v)) xs"
| "nan_free B (PyDict kvs) =
     list_all (\<lambda>kv. nan_free B (snd (fst kv)) \<and> nan_free B (snd (snd kv))) kvs"
| "nan_free B (JObject m kvs) =
     list_all (\<lambda>kv. nan_free B (snd (fst kv)) \<and> nan_free B (snd (snd kv))) kvs"
| "nan_free B (JWrapper m v) = nan_free B v"
| "nan_free B x = True"
  by pat_completeness auto
termination
  by (relation "measure (\<lambda>(B, x). size x)")
     (auto simp: less_Suc_eq_le dest: ref_size_snd pair_size_fst pair_size_snd)

lemma type_of_content [simp]: "type_of (content x) = type_of x"
  by (cases x) auto

lemma at_address_by_value:
  "r \<noteq> Inr Hash_by_identity \<Longrightarrow> at_address B a r = at_address B a' r"
  by (cases "(B, a, r)" rule: at_address.cases) auto

lemma nan_free_hash: "nan_free B x \<Longrightarrow> py_hash B x \<noteq> Inr Hash_by_identity"
  by (induction x) (auto simp: py_hash_cases split: sum.splits)

lemma py_hash_content: "nan_free B x \<Longrightarrow> py_hash B (content x) = py_hash B x"
proof (induction B x rule: py_hash.induct)
  case (1 B x)
  show ?case
  proof (cases x)
    case (PyTuple xs)
    have "at_address B 0 (py_hash B (content (snd v))) = at_address B (fst v) (py_hash B (snd v))"
      if v: "v \<in> set xs" for v
    proof -
      have n: "nan_free B (snd v)"
        using 1(3) v PyTuple by (simp add: list_all_iff)
      have "py_hash B (content (snd v)) = py_hash B (snd v)"
        using 1(1) [of C_tuple v] v n PyTuple by simp
      then show ?thesis
        using at_address_by_value [OF nan_free_hash [OF n]] by simp
    qed
    then have h: "map (\<lambda>v. at_address B (fst v) (py_hash B (snd v)))
               (map (\<lambda>v. (0, content (snd v))) xs)
        = map (\<lambda>v. at_address B (fst v) (py_hash B (snd v))) xs"
      by (auto simp: comp_def)
    show ?thesis
      unfolding PyTuple by (simp only: content.simps py_hash_cases h)
  next
    case (JWrapper m v)
    then show ?thesis
      using 1(2) [of C_JWrapper v] 1(3) by (simp add: py_hash_cases)
  qed (simp_all add: py_hash_cases)
qed

lemma nan_free_content: "nan_free B (content x) = nan_free B x"
  by (induction x rule: content.induct) (auto simp: list_all_iff)

lemma py_hash_same_content:
  assumes "content x = content y" and "nan_free B x"
  shows "py_hash B x = py_hash B y"
proof -
  have "nan_free B y"
    using assms nan_free_content [of B x] nan_free_content [of B y] by simp
  then show ?thesis
    using assms py_hash_content [of B x] py_hash_content [of B y] by simp
qed

text \<open>
  The references inside a value, at every depth, and the condition that they lie in
  one heap: two references with the same address hold the same object.
\<close>

function (sequential) refs :: "'f pyobj \<Rightarrow> 'f pyref list" where
  "refs (PyList xs) = concat (map (\<lambda>v. v # refs (snd v)) xs)"
| "refs (PyTuple xs) = concat (map (\<lambda>v. v # refs (snd v)) xs)"
| "refs (Array m xs) = concat (map (\<lambda>v. v # refs (snd v)) xs)"
| "refs (PyDict kvs) =
     concat (map (\<lambda>kv. fst kv # refs (snd (fst kv)) @ snd kv # refs (snd (snd kv))) kvs)"
| "refs (JObject m kvs) =
     concat (map (\<lambda>kv. fst kv # refs (snd (fst kv)) @ snd kv # refs (snd (snd kv))) kvs)"
| "refs (JWrapper m v) = refs v"
| "refs x = []"
  by pat_completeness auto
termination
  by (relation "measure size")
     (auto simp: less_Suc_eq_le dest: ref_size_snd pair_size_fst pair_size_snd)

definition one_heap :: "'f pyobj \<Rightarrow> 'f pyobj \<Rightarrow> bool" where
  "one_heap x y =
     (let rs = refs x @ refs y
      in list_all (\<lambda>r. list_all (\<lambda>r'. fst r = fst r' \<longrightarrow> snd r = snd r') rs) rs)"

text \<open>
  The keys of every mapping inside the value are texts (\<open>Key\<close> of types.py:
  \<open>JString | Identifier | str\<close>), and no two keys of a mapping have the same text.
\<close>

function (sequential) text_keys :: "'f pyobj \<Rightarrow> bool" where
  "text_keys (PyList xs) = list_all (\<lambda>v. text_keys (snd v)) xs"
| "text_keys (PyTuple xs) = list_all (\<lambda>v. text_keys (snd v)) xs"
| "text_keys (Array m xs) = list_all (\<lambda>v. text_keys (snd v)) xs"
| "text_keys (PyDict kvs) =
     (list_all (\<lambda>kv. isinstance (snd (fst kv)) C_str \<and> text_keys (snd (snd kv))) kvs
      \<and> distinct (map (\<lambda>kv. str_value (snd (fst kv))) kvs))"
| "text_keys (JObject m kvs) =
     (list_all (\<lambda>kv. isinstance (snd (fst kv)) C_str \<and> text_keys (snd (snd kv))) kvs
      \<and> distinct (map (\<lambda>kv. str_value (snd (fst kv))) kvs))"
| "text_keys (JWrapper m v) = text_keys v"
| "text_keys x = True"
  by pat_completeness auto
termination
  by (relation "measure size")
     (auto simp: less_Suc_eq_le dest: ref_size_snd pair_size_fst pair_size_snd)

lemma isinstance_content [simp]: "isinstance (content x) c = isinstance x c"
  by (simp add: isinstance_def)

lemma int_value_content [simp]: "int_value (content x) = int_value x"
  by (cases x) auto

lemma str_value_content [simp]: "str_value (content x) = str_value x"
  by (cases x) auto

lemma float_value_content [simp]: "float_value (content x) = float_value x"
  by (cases x) auto

lemma list_items_content:
  "list_items (content x) = map (\<lambda>v. (0, content (snd v))) (list_items x)"
  by (cases x) auto

lemma dict_items_content:
  "dict_items (content x)
     = map (\<lambda>kv. ((0, content (snd (fst kv))), (0, content (snd (snd kv))))) (dict_items x)"
  by (cases x) auto

lemma same_content_type: "content x = content y \<Longrightarrow> type_of x = type_of y"
  by (metis type_of_content)

lemma same_content_int: "content x = content y \<Longrightarrow> int_value x = int_value y"
  by (metis int_value_content)

lemma same_content_str: "content x = content y \<Longrightarrow> str_value x = str_value y"
  by (metis str_value_content)

lemma same_content_float: "content x = content y \<Longrightarrow> float_value x = float_value y"
  by (metis float_value_content)

lemma same_content_items:
  assumes "content x = content y"
  shows "length (list_items x) = length (list_items y)"
    and "i < length (list_items x) \<Longrightarrow>
           content (snd (list_items x ! i)) = content (snd (list_items y ! i))"
proof -
  have m: "map (\<lambda>v. (0::nat, content (snd v))) (list_items x)
         = map (\<lambda>v. (0, content (snd v))) (list_items y)"
    using assms list_items_content [of x] list_items_content [of y] by simp
  show l: "length (list_items x) = length (list_items y)"
    using m by (rule map_eq_imp_length_eq)
  show "content (snd (list_items x ! i)) = content (snd (list_items y ! i))"
    if "i < length (list_items x)"
    using that l arg_cong [OF m, of "\<lambda>zs. snd (zs ! i)"] by simp
qed

lemma same_content_entries:
  assumes "content x = content y"
  shows "length (dict_items x) = length (dict_items y)"
    and "i < length (dict_items x) \<Longrightarrow>
           content (snd (fst (dict_items x ! i))) = content (snd (fst (dict_items y ! i)))"
    and "i < length (dict_items x) \<Longrightarrow>
           content (snd (snd (dict_items x ! i))) = content (snd (snd (dict_items y ! i)))"
proof -
  have m: "map (\<lambda>kv. ((0::nat, content (snd (fst kv))), (0::nat, content (snd (snd kv)))))
             (dict_items x)
         = map (\<lambda>kv. ((0, content (snd (fst kv))), (0, content (snd (snd kv))))) (dict_items y)"
    using assms dict_items_content [of x] dict_items_content [of y] by simp
  show l: "length (dict_items x) = length (dict_items y)"
    using m by (rule map_eq_imp_length_eq)
  show "content (snd (fst (dict_items x ! i))) = content (snd (fst (dict_items y ! i)))"
    if "i < length (dict_items x)"
    using that l arg_cong [OF m, of "\<lambda>zs. snd (fst (zs ! i))"] by simp
  show "content (snd (snd (dict_items x ! i))) = content (snd (snd (dict_items y ! i)))"
    if "i < length (dict_items x)"
    using that l arg_cong [OF m, of "\<lambda>zs. snd (snd (zs ! i))"] by simp
qed

lemma nan_free_item: "nan_free B x \<Longrightarrow> v \<in> set (list_items x) \<Longrightarrow> nan_free B (snd v)"
  by (cases x) (auto simp: list_all_iff)

lemma nan_free_entry:
  "nan_free B x \<Longrightarrow> kv \<in> set (dict_items x) \<Longrightarrow>
     nan_free B (snd (fst kv)) \<and> nan_free B (snd (snd kv))"
  by (cases x) (auto simp: list_all_iff)

lemma text_keys_item: "text_keys x \<Longrightarrow> v \<in> set (list_items x) \<Longrightarrow> text_keys (snd v)"
  by (cases x) (auto simp: list_all_iff)

lemma text_keys_entry:
  "text_keys x \<Longrightarrow> kv \<in> set (dict_items x) \<Longrightarrow>
     isinstance (snd (fst kv)) C_str \<and> text_keys (snd (snd kv))"
  by (cases x) (auto simp: list_all_iff)

lemma text_keys_distinct:
  "text_keys x \<Longrightarrow> distinct (map (\<lambda>kv. str_value (snd (fst kv))) (dict_items x))"
  by (cases x) auto

lemma refs_item: "v \<in> set (list_items x) \<Longrightarrow> set (refs (snd v)) \<subseteq> set (refs x)"
  by (cases x) auto

lemma refs_entry:
  "kv \<in> set (dict_items x) \<Longrightarrow>
     fst kv \<in> set (refs x) \<and> set (refs (snd (fst kv))) \<subseteq> set (refs x)
     \<and> set (refs (snd (snd kv))) \<subseteq> set (refs x)"
  by (cases x) auto

lemma one_heap_iff:
  "one_heap x y \<longleftrightarrow>
     (\<forall>r \<in> set (refs x) \<union> set (refs y). \<forall>r' \<in> set (refs x) \<union> set (refs y).
        fst r = fst r' \<longrightarrow> snd r = snd r')"
  by (simp add: one_heap_def Let_def list_all_iff)

lemma one_heap_sub:
  "one_heap x y \<Longrightarrow> set (refs a) \<subseteq> set (refs x) \<Longrightarrow> set (refs b) \<subseteq> set (refs y)
     \<Longrightarrow> one_heap a b"
  unfolding one_heap_iff by blast

lemma text_owner:
  "isinstance a C_str \<Longrightarrow> eq_owner (type_of a) = C_str \<and> hash_owner (type_of a) = C_str"
proof (cases a)
  case (PyOpaque k n)
  assume "isinstance a C_str"
  then show ?thesis
    unfolding PyOpaque by (cases k) (simp_all add: isinstance_def)
qed (simp_all add: isinstance_def)

lemma text_eq:
  assumes "isinstance a C_str" and "isinstance b C_str"
  shows "py_eq B a b = (str_value a = str_value b)"
  using assms text_owner [of a] text_owner [of b]
  by (auto simp: py_eq.simps dunder_eq_str)

lemma text_hash:
  assumes "isinstance a C_str"
  shows "py_hash B a = Inr (Hash (str_hash B (str_value a)))"
  using assms text_owner [of a] by (subst py_hash.simps) simp

lemma owner_isinstance:
  "eq_owner (type_of x) = c \<Longrightarrow> c \<noteq> C_object \<Longrightarrow> isinstance x c"
proof (cases x)
  case (PyOpaque k n)
  assume "eq_owner (type_of x) = c" "c \<noteq> C_object"
  then show ?thesis
    unfolding PyOpaque by (cases k) (auto simp: isinstance_def)
qed (auto simp: isinstance_def)

lemma float_ownerD:
  "eq_owner (type_of x) = C_float \<Longrightarrow> nan_free B x \<Longrightarrow>
     \<exists>f. float_value x = Some f \<and> float_eq B f f"
proof (cases x)
  case (PyOpaque k n)
  assume "eq_owner (type_of x) = C_float"
  then show ?thesis
    unfolding PyOpaque by (cases k) simp_all
qed simp_all

lemma object_ownerD:
  "eq_owner (type_of x) = C_object \<Longrightarrow> content x = content y \<Longrightarrow> same_object x y"
proof (cases x)
  case PyNone
  assume "content x = content y"
  then show ?thesis unfolding PyNone by (cases y) simp_all
next
  case (PyOther n)
  assume "content x = content y"
  then show ?thesis unfolding PyOther by (cases y) auto
next
  case (PyOpaque k n)
  assume "content x = content y"
  then show ?thesis unfolding PyOpaque by (cases y) auto
qed simp_all

lemma opaque_ownerD:
  "eq_owner (type_of x) \<in> {C_date, C_time, C_datetime, C_Pattern} \<Longrightarrow>
   content x = content y \<Longrightarrow> opaque_eq x y = Some True"
proof (cases x)
  case (PyOpaque k n)
  assume "content x = content y"
  then show ?thesis unfolding PyOpaque by (cases y) auto
qed simp_all

lemma wrapper_same_content:
  "content (JWrapper m v) = content y \<Longrightarrow> \<exists>m' v'. y = JWrapper m' v' \<and> content v = content v'"
  by (cases y) auto

lemma text_hash_at:
  "isinstance (snd k) C_str \<Longrightarrow> hash_at B k = Inr (str_hash B (str_value (snd k)))"
  by (simp add: hash_at_def text_hash)

lemma py_eq_from_true:
  "dunder_eq B a b = Some True \<Longrightarrow> type_of a = type_of b \<Longrightarrow> py_eq B a b"
  by (simp add: py_eq.simps)

lemma find_at:
  assumes "i < length ys" and "P (ys ! i)" and "\<And>j. j < i \<Longrightarrow> \<not> P (ys ! j)"
  shows "find P ys = Some (ys ! i)"
  using assms by (auto simp: find_Some_iff)

lemma dunder_eq_same_content:
  assumes "content x = content y" and "nan_free B x" and "text_keys x" and "one_heap x y"
  shows "dunder_eq B x y = Some True"
  using assms
proof (induction "size x" arbitrary: x y rule: less_induct)
  case less
  note c = less.prems(1) and n = less.prems(2) and t = less.prems(3) and h = less.prems(4)
  have ty: "type_of x = type_of y"
    using c by (rule same_content_type)
  have inst: "isinstance y cl = isinstance x cl" for cl
    by (simp add: isinstance_def ty)
  have Q: "py_eq B a b"
    if "size a < size x" "content a = content b" "nan_free B a" "text_keys a" "one_heap a b"
    for a b
    using less.hyps [OF that] same_content_type [OF that(2)] by (rule py_eq_from_true)
  consider (int) "eq_owner (type_of x) = C_int" | (float) "eq_owner (type_of x) = C_float"
    | (str) "eq_owner (type_of x) = C_str"
    | (seq) "eq_owner (type_of x) = C_list \<or> eq_owner (type_of x) = C_tuple"
    | (dict) "eq_owner (type_of x) = C_dict" | (wrapper) "eq_owner (type_of x) = C_JWrapper"
    | (object) "eq_owner (type_of x) = C_object"
    | (opaque) "eq_owner (type_of x) \<in> {C_date, C_time, C_datetime, C_Pattern}"
    using eq_owner_range [of "type_of x"] by auto
  then show ?case
  proof cases
    case int
    then show ?thesis
      using owner_isinstance [OF int] same_content_int [OF c] by (simp add: dunder_eq_int inst)
  next
    case float
    obtain f where f: "float_value x = Some f" "float_eq B f f"
      using float_ownerD [OF float n] by blast
    have "float_value y = Some f"
      using same_content_float [OF c] f by simp
    then show ?thesis
      using f owner_isinstance [OF float] by (simp add: dunder_eq_float float inst)
  next
    case str
    then show ?thesis
      using owner_isinstance [OF str] same_content_str [OF c] by (simp add: dunder_eq_str inst)
  next
    case seq
    let ?xs = "list_items x" and ?ys = "list_items y"
    have l: "length ?xs = length ?ys"
      using same_content_items(1) [OF c] .
    have "py_eq B (snd v) (snd w)" if vw: "(v, w) \<in> set (zip ?xs ?ys)" for v w
    proof -
      obtain i where i: "i < length ?xs" "v = ?xs ! i" "w = ?ys ! i"
        using vw l by (auto simp: set_zip)
      have v: "v \<in> set ?xs"
        using i by simp
      have w: "w \<in> set ?ys"
        using i l by simp
      show ?thesis
      proof (rule Q)
        show "size (snd v) < size x"
          using v list_items_size [of "fst v" "snd v" x] by simp
        show "content (snd v) = content (snd w)"
          using same_content_items(2) [OF c i(1)] i by simp
        show "nan_free B (snd v)"
          using n v by (rule nan_free_item)
        show "text_keys (snd v)"
          using t v by (rule text_keys_item)
        show "one_heap (snd v) (snd w)"
          using h refs_item [OF v] refs_item [OF w] by (rule one_heap_sub)
      qed
    qed
    then have a: "list_all (\<lambda>(v, w). py_is v w \<or> py_eq B (snd v) (snd w)) (zip ?xs ?ys)"
      by (auto simp: list_all_iff)
    have "isinstance x (eq_owner (type_of x))"
      using seq owner_isinstance [of x] by auto
    then show ?thesis
      using seq l a by (simp add: dunder_eq_seq inst)
  next
    case dict
    let ?xs = "dict_items x" and ?ys = "dict_items y"
    let ?M = "\<lambda>k' k. py_is k' k \<or> (hash_at B k' = hash_at B k \<and> py_eq B (snd k') (snd k))"
    have l: "length ?xs = length ?ys"
      using same_content_entries(1) [OF c] .
    have kx: "isinstance (snd (fst (?xs ! i))) C_str" if "i < length ?xs" for i
      using text_keys_entry [OF t, of "?xs ! i"] that by simp
    have ky: "isinstance (snd (fst (?ys ! i))) C_str" if "i < length ?xs" for i
      using kx [OF that] same_content_entries(2) [OF c that]
        isinstance_content [of "snd (fst (?xs ! i))" C_str]
        isinstance_content [of "snd (fst (?ys ! i))" C_str] by simp
    have sv: "str_value (snd (fst (?ys ! i))) = str_value (snd (fst (?xs ! i)))"
      if "i < length ?xs" for i
      using same_content_str [OF same_content_entries(2) [OF c that]] by simp
    have apart: "str_value (snd (fst (?xs ! j))) \<noteq> str_value (snd (fst (?xs ! i)))"
      if "j < i" "i < length ?xs" for i j
      using text_keys_distinct [OF t] that
      by (auto simp: distinct_conv_nth)
    have entry: "case find (\<lambda>(k', v'). ?M k' (fst (?xs ! i))) ?ys of
                   None \<Rightarrow> False
                 | Some (k', v') \<Rightarrow> py_is (snd (?xs ! i)) v'
                                    \<or> py_eq B (snd (snd (?xs ! i))) (snd v')"
      if i: "i < length ?xs" for i
    proof -
      have f: "find (\<lambda>(k', v'). ?M k' (fst (?xs ! i))) ?ys = Some (?ys ! i)"
      proof (rule find_at)
        show "i < length ?ys"
          using i l by simp
        show "case ?ys ! i of (k', v') \<Rightarrow> ?M k' (fst (?xs ! i))"
          using kx [OF i] ky [OF i] sv [OF i]
          by (simp add: case_prod_beta text_hash_at text_eq)
        show "\<not> (case ?ys ! j of (k', v') \<Rightarrow> ?M k' (fst (?xs ! i)))" if j: "j < i" for j
        proof -
          have jl: "j < length ?xs"
            using j i by simp
          have d: "str_value (snd (fst (?ys ! j))) \<noteq> str_value (snd (fst (?xs ! i)))"
            using apart [OF j i] sv [OF jl] by simp
          have "fst (?ys ! j) \<in> set (refs y)"
            using refs_entry [of "?ys ! j" y] jl l by simp
          moreover have "fst (?xs ! i) \<in> set (refs x)"
            using refs_entry [of "?xs ! i" x] i by simp
          ultimately have "fst (fst (?ys ! j)) = fst (fst (?xs ! i))
                             \<longrightarrow> snd (fst (?ys ! j)) = snd (fst (?xs ! i))"
            using h unfolding one_heap_iff by blast
          then have "\<not> py_is (fst (?ys ! j)) (fst (?xs ! i))"
            using d by (auto simp: py_is_def)
          then show ?thesis
            using d kx [OF i] ky [OF jl] by (simp add: case_prod_beta text_eq)
        qed
      qed
      have xi: "?xs ! i \<in> set ?xs"
        using i by simp
      have yi: "?ys ! i \<in> set ?ys"
        using i l by simp
      have "py_eq B (snd (snd (?xs ! i))) (snd (snd (?ys ! i)))"
      proof (rule Q)
        show "size (snd (snd (?xs ! i))) < size x"
          using xi dict_entry_size [of "fst (?xs ! i)" "snd (?xs ! i)" x] by simp
        show "content (snd (snd (?xs ! i))) = content (snd (snd (?ys ! i)))"
          using same_content_entries(3) [OF c i] .
        show "nan_free B (snd (snd (?xs ! i)))"
          using nan_free_entry [OF n xi] by simp
        show "text_keys (snd (snd (?xs ! i)))"
          using text_keys_entry [OF t xi] by simp
        have "set (refs (snd (snd (?xs ! i)))) \<subseteq> set (refs x)"
          using refs_entry [OF xi] by simp
        moreover have "set (refs (snd (snd (?ys ! i)))) \<subseteq> set (refs y)"
          using refs_entry [OF yi] by simp
        ultimately show "one_heap (snd (snd (?xs ! i))) (snd (snd (?ys ! i)))"
          using h one_heap_sub by blast
      qed
      then show ?thesis
        by (simp add: f case_prod_beta)
    qed
    have a: "list_all
               (\<lambda>(k, v). case find (\<lambda>(k', v'). ?M k' k) ?ys of
                            None \<Rightarrow> False
                          | Some (k', v') \<Rightarrow> py_is v v' \<or> py_eq B (snd v) (snd v'))
               ?xs"
      unfolding list_all_length using entry by (simp add: case_prod_beta)
    show ?thesis
      using owner_isinstance [OF dict] l a by (simp add: dunder_eq_dict dict inst)
  next
    case wrapper
    then obtain m v where x: "x = JWrapper m v"
      using eq_owner_JWrapperD by blast
    obtain m' v' where y: "y = JWrapper m' v'" and cv: "content v = content v'"
      using wrapper_same_content c unfolding x by blast
    have "dunder_eq B v v' = Some True"
    proof (rule less.hyps)
      show "size v < size x"
        by (simp add: x)
      show "content v = content v'"
        by (rule cv)
      show "nan_free B v"
        using n by (simp add: x)
      show "text_keys v"
        using t by (simp add: x)
      show "one_heap v v'"
        using h by (simp add: x y one_heap_def)
    qed
    then show ?thesis
      by (simp add: x y dunder_eq_wrapper isinstance_def)
  next
    case object
    then show ?thesis
      using object_ownerD [OF object c] by (simp add: dunder_eq_object)
  next
    case opaque
    then show ?thesis
      using opaque_ownerD [OF opaque c] by (simp add: dunder_eq_opaque)
  qed
qed

lemma py_eq_same_content:
  assumes "content x = content y" and "nan_free B x" and "text_keys x" and "one_heap x y"
  shows "py_eq B x y"
  using dunder_eq_same_content [OF assms] same_content_type [OF assms(1)]
  by (rule py_eq_from_true)

section \<open>Concrete interpreter\<close>

text \<open>
  The statements below that evaluate the code do so on inputs that hold no float:
  there the float type is the unit type and none of its operations is reached. The
  hash of a text is the sum of its code points and the hash of a tuple the sum of the
  hashes of its items, in place of the interpreter's functions.
\<close>

definition no_floats :: "unit builtins" where
  "no_floats =
     \<lparr>float_repr = (\<lambda>_. []), float_gt0 = (\<lambda>_. False), float_eq = (\<lambda>_ _. False),
      float_eq_int = (\<lambda>_ _. False), float_isnan = (\<lambda>_. False), float_of_str = (\<lambda>_. None),
      float_hash = (\<lambda>_. 0), str_hash = (\<lambda>s. int (sum_list s)), none_hash = 0,
      object_hash = int, opaque_hash = (\<lambda>k n. int n), tuple_hash = sum_list\<rparr>"

text \<open>
  The host values that none of the tests of \<open>convert\<close> accepts: not a fidelity value,
  a sequence, a mapping, a text, a boolean, one of the opaque classes, a number or
  \<open>None\<close>.
\<close>

definition unsupported :: "'f pyobj \<Rightarrow> bool" where
  "unsupported obj =
     (\<not> (isinstance obj C_JType \<or> isinstance obj C_list \<or> isinstance obj C_tuple
         \<or> isinstance obj C_dict \<or> isinstance obj C_str \<or> isinstance obj C_bool
         \<or> isinstance obj C_date \<or> isinstance obj C_time \<or> isinstance obj C_datetime
         \<or> isinstance obj C_Pattern \<or> isinstance obj C_Enum
         \<or> isinstance obj C_int \<or> isinstance obj C_float \<or> type_of obj = C_NoneType))"

text \<open>
  Two objects built apart, of parts at different addresses: the plain one, and one with
  whitespace, comments, a tail and trailing commas around the same entries, the texts
  single-quoted, one with a recorded line break, the number with its origin text. And
  two wrappers of a tuple built apart, one of them with a leading space.
\<close>

definition sample_plain :: "unit pyobj" where
  "sample_plain =
     JObject jcontainer_defaults
       [((1, JString jstring_defaults (cp ''a'')), (2, Integer jnumber_defaults 26)),
        ((3, Identifier jtype_defaults (cp ''b'')),
         (4, Array jcontainer_defaults
               [(5, JString jstring_defaults (cp ''ab'')),
                (6, JWrapper jtype_defaults (PyBool True))]))]"

definition sample_styled :: "unit pyobj" where
  "sample_styled =
     JObject \<lparr>json_before = [WhiteSpace (cp '' '')], json_after = [LineStyleComment (cp ''// c'')],
              json_container_head = [], json_container_tail = [WhiteSpace (cp '' '')],
              json_container_trailing_comma = True\<rparr>
       [((11, JString \<lparr>json_before = [], json_after = [WhiteSpace (cp '' '')], quote = SINGLE,
                        linebreaks = []\<rparr> (cp ''a'')),
         (12, Integer \<lparr>json_before = [WhiteSpace (cp '' '')], json_after = [],
                        origin = Some (cp ''26''), prefixed = Some False\<rparr> 26)),
        ((13, Identifier \<lparr>json_before = [WhiteSpace (cp '' '')], json_after = []\<rparr> (cp ''b'')),
         (14, Array \<lparr>json_before = [], json_after = [],
                      json_container_head = [BlockStyleComment (cp ''/* h */'')],
                      json_container_tail = [], json_container_trailing_comma = True\<rparr>
                [(15, JString \<lparr>json_before = [], json_after = [], quote = SINGLE,
                                linebreaks = [2]\<rparr> (cp ''ab'')),
                 (16, JWrapper \<lparr>json_before = [], json_after = [WhiteSpace (cp '' '')]\<rparr>
                        (PyBool True))]))]"

definition wrapper_plain :: "unit pyobj" where
  "wrapper_plain = JWrapper jtype_defaults (PyTuple [(5, PyInt 1), (6, PyStr (cp ''ab''))])"

definition wrapper_styled :: "unit pyobj" where
  "wrapper_styled =
     JWrapper \<lparr>json_before = [WhiteSpace (cp '' '')], json_after = []\<rparr>
       (PyTuple [(7, PyInt 1), (8, PyStr (cp ''ab''))])"

section \<open>Properties\<close>

subsection \<open>Numbers\<close>

text \<open>
  C1. A number with an origin text is to be serialized as that text when the text
  reads back as the value; origin \<open>0x1A\<close> with value 26 is to give \<open>0x1A\<close>. The
  encoder writes \<open>str(obj)\<close> and never calls \<open>__round_dump__\<close>: for this number, with
  the sign flag present and unset, it writes \<open>0x1a\<close>, while \<open>__round_dump__\<close> gives
  \<open>0x1A\<close>; with the sign flag absent it raises.
\<close>

theorem encode_number_ignores_origin:
  "dumps no_floats
     (HexInteger \<lparr>json_before = [], json_after = [], origin = Some (cp ''0x1A''),
                  prefixed = Some False\<rparr> 26) = Inr (cp ''0x1a'')
   \<and> round_dump no_floats
     (HexInteger \<lparr>json_before = [], json_after = [], origin = Some (cp ''0x1A''),
                  prefixed = Some False\<rparr> 26) = Inr (cp ''0x1A'')
   \<and> dumps no_floats
     (HexInteger \<lparr>json_before = [], json_after = [], origin = Some (cp ''0x1A''),
                  prefixed = None\<rparr> 26) = Inl (AttributeError C_HexInteger ''prefixed'')"
  by code_simp

text \<open>
  C5. A positive number whose sign flag is not set is to be encoded without a prefix
  and without error. The host integer 5, and the \<open>Integer\<close> that \<open>convert\<close> makes of
  it, have no attribute \<open>prefixed\<close>, and encoding either raises \<open>AttributeError\<close>.
\<close>

theorem encode_positive_number_raises:
  "dumps no_floats (PyInt 5) = Inl (AttributeError C_Integer ''prefixed'')
   \<and> convert [PyInt 5] (0, PyInt 5 :: unit pyobj)
       = (Inr (1, Integer jnumber_defaults 5), [PyInt 5, Integer jnumber_defaults 5])
   \<and> dumps no_floats (Integer jnumber_defaults 5) = Inl (AttributeError C_Integer ''prefixed'')"
  by code_simp

subsection \<open>Strings\<close>

text \<open>
  C2. A text of a backslash, a double quote and a newline, quoted with the double
  quote, is to be written with the backslash and the quote escaped. The encoder passes
  no escape for the quote: the output is quote, backslash, backslash, quote, backslash,
  n, quote (code points 34, 92, 92, 34, 92, 110, 34), the inner quote as it is.
\<close>

theorem encode_string_quote_not_escaped:
  "dumps no_floats
     (JString \<lparr>json_before = [], json_after = [], quote = DOUBLE, linebreaks = []\<rparr>
        [92, 34, 10])
     = Inr [34, 92, 92, 34, 92, 110, 34]"
  by code_simp

subsection \<open>Containers\<close>

text \<open>
  C4. A comma is to follow every entry of a container but the last, whatever the
  elements are. The encoder of sequences tests each element against the last one by
  identity: a sequence holding the same text object twice is written as
  \<open>["a""a"]\<close>, with no comma, while two distinct objects with the same text give
  \<open>["a","a"]\<close>.
\<close>

theorem encode_iterable_repeated_object:
  "dumps no_floats (Array jcontainer_defaults [(1, PyStr (cp ''a'')), (1, PyStr (cp ''a''))])
     = Inr [91, 34, 97, 34, 34, 97, 34, 93]
   \<and> dumps no_floats (Array jcontainer_defaults [(1, PyStr (cp ''a'')), (2, PyStr (cp ''a''))])
     = Inr [91, 34, 97, 34, 44, 34, 97, 34, 93]"
  by code_simp

subsection \<open>Literals\<close>

text \<open>
  C6. Every boolean given to \<open>encode\<close> is to be written as \<open>true\<close> or \<open>false\<close>. The
  dispatch tests for a number first and \<open>bool\<close> is a subclass of \<open>int\<close>: the host
  \<open>False\<close> is written as \<open>0\<close>, the host \<open>True\<close> raises; a \<open>BoolWrapper\<close> is written
  with \<open>str\<close>, as \<open>False\<close> or \<open>True\<close>. The lower-case names come only from
  \<open>__round_dump__\<close> and from \<open>encode_literal\<close> on a \<open>JWrapper\<close>.
\<close>

theorem encode_boolean_as_number:
  "dumps no_floats (PyBool False) = Inr (cp ''0'')
   \<and> dumps no_floats (PyBool True) = Inl (AttributeError C_Integer ''prefixed'')
   \<and> dumps no_floats (BoolWrapper jnumber_defaults False) = Inr (cp ''False'')
   \<and> dumps no_floats (BoolWrapper (jnumber_defaults\<lparr>prefixed := Some False\<rparr>) True)
       = Inr (cp ''True'')
   \<and> round_dump no_floats (BoolWrapper jnumber_defaults False) = Inr (cp ''false'')
   \<and> dumps no_floats (JWrapper jtype_defaults (PyBool False)) = Inr (cp ''false'')"
  by code_simp

text \<open>
  C9. Encoding the host \<open>None\<close> fails with the error of an unknown type, and nothing
  is written; the wrapper of \<open>None\<close> is written as \<open>null\<close> between its leading and
  trailing attachment, and the wrapper that \<open>convert\<close> makes of \<open>None\<close> as exactly
  \<open>null\<close>.
\<close>

theorem encode_bare_none_fails:
  "encode B PyNone = ([], Some (NotImplementedError_type C_NoneType))
   \<and> dumps B PyNone = Inl (NotImplementedError_type C_NoneType)
   \<and> encode B (JWrapper m PyNone)
       = (concat (map encode_wsc (json_before m)) @ cp ''null''
            @ concat (map encode_wsc (json_after m)), None)
   \<and> convert st (a, PyNone) = (Inr (length st, JWrapper jtype_defaults PyNone),
                               st @ [JWrapper jtype_defaults PyNone])
   \<and> dumps B (JWrapper jtype_defaults PyNone) = Inr (cp ''null'')"
  by (simp add: encode.simps dumps_def isinstance_def py_raise_def fp_write_def
        encode_literal_def with_style_def jtype_defaults_def convert_def construct_def)

subsection \<open>Conversion\<close>

text \<open>
  C3, as the claim states it: the elements of a converted sequence are converted.
  They are not: the list holding the host integer 7 becomes an \<open>Array\<close> holding the
  same host integer, which is no fidelity value.
\<close>

theorem convert_elements_not_converted:
  "convert [PyInt 7, PyList [(0, PyInt 7)]] (1, PyList [(0, PyInt 7)])
     = (Inr (2, Array jcontainer_defaults [(0, PyInt 7 :: unit pyobj)]),
        [PyInt 7, PyList [(0, PyInt 7)], Array jcontainer_defaults [(0, PyInt 7)]])
   \<and> \<not> isinstance (PyInt 7 :: unit pyobj) C_JType"
  by code_simp

text \<open>
  C3, amended: \<open>convert\<close> of a host list or tuple is a new \<open>Array\<close>, and of a host
  dict a new \<open>JObject\<close>, with empty formatting metadata, holding the very references
  of the argument in their order: neither elements, keys nor values are converted.
\<close>

theorem convert_container_is_shallow:
  "convert st (a, PyList xs)
     = (Inr (length st, Array jcontainer_defaults xs), st @ [Array jcontainer_defaults xs])
   \<and> convert st (a, PyTuple xs)
     = (Inr (length st, Array jcontainer_defaults xs), st @ [Array jcontainer_defaults xs])
   \<and> convert st (a, PyDict kvs)
     = (Inr (length st, JObject jcontainer_defaults kvs), st @ [JObject jcontainer_defaults kvs])"
  by (simp add: convert_def construct_def isinstance_def jcontainer_defaults_def Let_def)

text \<open>
  C8. On a host value that none of its tests accepts, \<open>convert\<close> fails with the
  \<open>TypeError\<close> whose message is made from that value, and the store is as it was
  before the call.
\<close>

theorem convert_rejects_unsupported:
  "unsupported obj \<Longrightarrow> convert st (a, obj) = (Inl (TypeError_convert obj), st)"
  by (simp add: convert_def unsupported_def)

theorem convert_rejects_unsupported_witness:
  "unsupported (PyOther 3 :: unit pyobj)
   \<and> convert [PyList [], PyOther 3] (1, PyOther 3 :: unit pyobj)
       = (Inl (TypeError_convert (PyOther 3)), [PyList [], PyOther 3])"
  using convert_rejects_unsupported [of "PyOther 3 :: unit pyobj" "[PyList [], PyOther 3]" 1]
  by (simp add: unsupported_def isinstance_def)

subsection \<open>Equality and hashing\<close>

text \<open>
  C10. A \<open>BoolWrapper\<close> is an instance of \<open>Integer\<close>, of \<open>JNumber\<close> and of \<open>int\<close>; its
  \<open>__eq__\<close> and \<open>__hash__\<close> are those of \<open>int\<close>, which come before those of \<open>JWrapper\<close>
  in its method resolution order. So \<open>BoolWrapper(True)\<close> equals the integer 1, host
  or \<open>Integer\<close>, in both orders, and has its hash; \<open>BoolWrapper(False)\<close> likewise with 0.
\<close>

theorem bool_wrapper_is_integer:
  "isinstance (BoolWrapper m b) C_Integer \<and> isinstance (BoolWrapper m b) C_JNumber
   \<and> isinstance (BoolWrapper m b) C_int
   \<and> py_eq B (BoolWrapper m True) (PyInt 1) \<and> py_eq B (PyInt 1) (BoolWrapper m True)
   \<and> py_eq B (BoolWrapper m False) (PyInt 0) \<and> py_eq B (PyInt 0) (BoolWrapper m False)
   \<and> py_eq B (BoolWrapper m True) (Integer m' 1) \<and> py_eq B (BoolWrapper m False) (Integer m' 0)
   \<and> py_hash B (BoolWrapper m True) = py_hash B (PyInt 1)
   \<and> py_hash B (BoolWrapper m False) = py_hash B (PyInt 0)"
  by (simp add: py_hash_cases py_eq.simps dunder_eq_int isinstance_def)

text \<open>
  C7. Two values with equal structured values are equal and hash alike, whatever their
  formatting metadata. Let \<open>x\<close> and \<open>y\<close> have the same content: they differ only in
  formatting metadata and in the addresses of the objects they are built from (two
  documents loaded apart). Let no float inside be NaN, which is the one value not equal
  to itself and is hashed by identity; let the keys of the mappings inside be texts,
  no two of a mapping alike; and let the references of both lie in one heap. Then
  \<open>x == y\<close> holds. With the same content and no NaN, \<open>hash(x)\<close> is \<open>hash(y)\<close>: the
  same number, or the same failure for an unhashable value. For every two values, with
  no condition: \<open>x == y\<close> is the comparison of the two without their formatting, and
  \<open>hash(x)\<close> is the hash of \<open>x\<close> without its formatting.
\<close>

theorem equality_and_hash_ignore_formatting:
  "(content x = content y \<and> nan_free B x \<and> text_keys x \<and> one_heap x y \<longrightarrow> py_eq B x y)
   \<and> (content x = content y \<and> nan_free B x \<longrightarrow>
        py_hash B x = py_hash B y \<and> py_hash B x \<noteq> Inr Hash_by_identity)
   \<and> py_eq B x y = py_eq B (strip_formatting x) (strip_formatting y)
   \<and> py_hash B x = py_hash B (strip_formatting x)"
  using py_eq_same_content [of x y B] py_hash_same_content [of x y B] nan_free_hash [of B x]
    py_eq_strip [of B x y] py_hash_strip [of B x]
  by metis

theorem equality_and_hash_ignore_formatting_witness:
  "content sample_styled = content sample_plain
   \<and> nan_free no_floats sample_styled \<and> text_keys sample_styled
   \<and> one_heap sample_styled sample_plain
   \<and> strip_formatting sample_styled \<noteq> strip_formatting sample_plain
   \<and> py_eq no_floats sample_styled sample_plain
   \<and> content wrapper_styled = content wrapper_plain
   \<and> nan_free no_floats wrapper_styled
   \<and> strip_formatting wrapper_styled \<noteq> strip_formatting wrapper_plain
   \<and> py_hash no_floats wrapper_styled = Inr (Hash 196)
   \<and> py_hash no_floats wrapper_plain = Inr (Hash 196)"
proof -
  have c: "content sample_styled = content sample_plain"
    by (simp add: sample_styled_def sample_plain_def)
  have n: "nan_free no_floats sample_styled"
    by (simp add: sample_styled_def)
  have t: "text_keys sample_styled"
    by (simp add: sample_styled_def isinstance_def cp_def)
  have h: "one_heap sample_styled sample_plain"
    by (simp add: one_heap_def sample_styled_def sample_plain_def)
  have d: "strip_formatting sample_styled \<noteq> strip_formatting sample_plain"
    by (simp add: sample_styled_def sample_plain_def)
  have c': "content wrapper_styled = content wrapper_plain"
    by (simp add: wrapper_styled_def wrapper_plain_def)
  have n': "nan_free no_floats wrapper_styled"
    by (simp add: wrapper_styled_def)
  have d': "strip_formatting wrapper_styled \<noteq> strip_formatting wrapper_plain"
    by (simp add: wrapper_styled_def wrapper_plain_def)
  have v: "py_hash no_floats wrapper_plain = Inr (Hash 196)"
    by code_simp
  show ?thesis
    using equality_and_hash_ignore_formatting [of sample_styled sample_plain no_floats]
      equality_and_hash_ignore_formatting [of wrapper_styled wrapper_plain no_floats]
      c n t h d c' n' d' v
    by simp
qed

end
